theory Spec2Isabelle
  imports Complex_Main
begin

section \<open>Numbers, rounding and SQL NULL\<close>

text \<open>
  Measured quantities (kilograms, cubic metres, minutes) are PostgreSQL numeric or
  floating columns and Python floats in the source; they are modelled by \<open>real\<close>.
  A nullable SQL value, and a pandas cell that may hold NaN, is an \<open>option\<close>.
\<close>

datatype py_error = OverflowError | KeyError | ZeroDivisionError

datatype sql_error = division_by_zero

definition round_half_even :: "real \<Rightarrow> int" where
  "round_half_even x =
     (let f = \<lfloor>x\<rfloor>; d = x - of_int f
      in if d < 1 / 2 then f else if 1 / 2 < d then f + 1
         else if even f then f else f + 1)"

definition py_round :: "real \<Rightarrow> nat \<Rightarrow> real" where
  \<comment> \<open>Python \<open>round(x, n)\<close> on the exact value: ties go to the even neighbour. For
      \<open>n = 0\<close> a tie is a double and Python does the same; for \<open>n > 0\<close> a decimal tie is
      not a double and Python may take either neighbour, so general statements about a
      rounded ratio give it to half a unit of the last place.\<close>
  "py_round x n = of_int (round_half_even (x * 10 ^ n)) / 10 ^ n"

definition sql_round :: "real \<Rightarrow> nat \<Rightarrow> real" where
  \<comment> \<open>PostgreSQL \<open>ROUND(CAST(x AS NUMERIC), n)\<close>: ties go away from zero.\<close>
  "sql_round x n = sgn x * of_int \<lfloor>\<bar>x\<bar> * 10 ^ n + 1 / 2\<rfloor> / 10 ^ n"

definition py_int :: "real \<Rightarrow> int" where
  \<comment> \<open>Python \<open>int(x)\<close> on a float truncates towards zero.\<close>
  "py_int x = (if 0 \<le> x then \<lfloor>x\<rfloor> else \<lceil>x\<rceil>)"

fun and_then :: "'e + 'a \<Rightarrow> ('a \<Rightarrow> 'e + 'b) \<Rightarrow> 'e + 'b" where
  \<comment> \<open>Sequencing: an exception or a query error ends the computation.\<close>
  "and_then (Inl e) f = Inl e"
| "and_then (Inr v) f = f v"

fun collect :: "('e + 'a) list \<Rightarrow> 'e + 'a list" where
  "collect [] = Inr []"
| "collect (x # xs) = and_then x (\<lambda>v. and_then (collect xs) (\<lambda>vs. Inr (v # vs)))"

definition py_div :: "real \<Rightarrow> real \<Rightarrow> py_error + real" where
  \<comment> \<open>Python \<open>a / b\<close> on floats\<close>
  "py_div a b = (if b = 0 then Inl ZeroDivisionError else Inr (a / b))"

fun sql_div :: "real option \<Rightarrow> real option \<Rightarrow> sql_error + real option" where
  \<comment> \<open>PostgreSQL \<open>a / b\<close>: NULL when an operand is, an error when \<open>b\<close> is zero\<close>
  "sql_div (Some a) (Some b) = (if b = 0 then Inl division_by_zero else Inr (Some (a / b)))"
| "sql_div _ _ = Inr None"

fun coalesce :: "'a option \<Rightarrow> 'a \<Rightarrow> 'a" where
  "coalesce None d = d"
| "coalesce (Some v) d = v"

fun sql_add :: "real option \<Rightarrow> real option \<Rightarrow> real option" where
  "sql_add (Some a) (Some b) = Some (a + b)"
| "sql_add _ _ = None"

fun sql_mul :: "real option \<Rightarrow> real option \<Rightarrow> real option" where
  "sql_mul (Some a) (Some b) = Some (a * b)"
| "sql_mul _ _ = None"

fun sql_gt :: "real option \<Rightarrow> real \<Rightarrow> bool" where
  \<comment> \<open>\<open>x > c\<close> in a WHERE or CASE WHEN: NULL is not true.\<close>
  "sql_gt (Some a) c = (c < a)"
| "sql_gt None c = False"

fun sql_ge :: "real option \<Rightarrow> real \<Rightarrow> bool" where
  "sql_ge (Some a) c = (c \<le> a)"
| "sql_ge None c = False"

fun nullif :: "real option \<Rightarrow> real \<Rightarrow> real option" where
  "nullif (Some a) c = (if a = c then None else Some a)"
| "nullif None c = None"

definition non_null :: "'a option list \<Rightarrow> 'a list" where
  "non_null vs = concat (map (\<lambda>v. case v of None \<Rightarrow> [] | Some a \<Rightarrow> [a]) vs)"

definition sql_sum :: "real option list \<Rightarrow> real option" where
  \<comment> \<open>\<open>SUM\<close> skips NULLs and is NULL when no value is left.\<close>
  "sql_sum vs = (if non_null vs = [] then None else Some (sum_list (non_null vs)))"

definition sql_avg :: "real option list \<Rightarrow> real option" where
  "sql_avg vs =
     (if non_null vs = [] then None
      else Some (sum_list (non_null vs) / real (length (non_null vs))))"

section \<open>Dates and times\<close>

text \<open>
  A naive Python \<open>datetime\<close> is its proleptic Gregorian day number
  (\<open>date.toordinal()\<close>, from 1 for 0001-01-01 to 3652059 for 9999-12-31) and the
  microseconds elapsed since midnight. A SQL timestamp is the same pair.
\<close>

record datetime =
  ordinal :: nat
  usec :: nat

definition max_ordinal :: nat where
  "max_ordinal = 3652059"

definition is_leap :: "nat \<Rightarrow> bool" where
  "is_leap y = (if y mod 100 = 0 then y mod 400 = 0 else y mod 4 = 0)"

definition days_before_year :: "nat \<Rightarrow> nat" where
  "days_before_year y = (y - 1) * 365 + (y - 1) div 4 - (y - 1) div 100 + (y - 1) div 400"

definition days_before_month :: "nat \<Rightarrow> nat \<Rightarrow> nat" where
  "days_before_month y m =
     [0, 31, 59, 90, 120, 151, 181, 212, 243, 273, 304, 334] ! (m - 1)
       + (if 2 < m \<and> is_leap y then 1 else 0)"

definition ymd :: "nat \<Rightarrow> nat \<Rightarrow> nat \<Rightarrow> nat" where
  \<comment> \<open>\<open>date(y, m, d).toordinal()\<close>, for a month in 1..12.\<close>
  "ymd y m d = days_before_year y + days_before_month y m + d"

definition at_time :: "nat \<Rightarrow> nat \<Rightarrow> nat \<Rightarrow> nat \<Rightarrow> datetime" where
  \<comment> \<open>The datetime on day \<open>ord\<close> at \<open>h:m:s\<close>.\<close>
  "at_time ord h m s = \<lparr>ordinal = ord, usec = ((h * 60 + m) * 60 + s) * 1000000\<rparr>"

definition plus_days :: "datetime \<Rightarrow> nat \<Rightarrow> py_error + datetime" where
  \<comment> \<open>\<open>dt + timedelta(days=n)\<close> raises OverflowError past 9999-12-31.\<close>
  "plus_days dt n =
     (if ordinal dt + n \<le> max_ordinal then Inr (dt\<lparr>ordinal := ordinal dt + n\<rparr>)
      else Inl OverflowError)"

definition minus_days :: "datetime \<Rightarrow> nat \<Rightarrow> py_error + datetime" where
  \<comment> \<open>\<open>dt - timedelta(days=n)\<close> raises OverflowError before 0001-01-01.\<close>
  "minus_days dt n =
     (if n < ordinal dt then Inr (dt\<lparr>ordinal := ordinal dt - n\<rparr>)
      else Inl OverflowError)"

definition replace_midnight :: "datetime \<Rightarrow> datetime" where
  \<comment> \<open>\<open>dt.replace(hour=0, minute=0, second=0, microsecond=0)\<close>\<close>
  "replace_midnight dt = dt\<lparr>usec := 0\<rparr>"

definition days_between :: "datetime \<Rightarrow> datetime \<Rightarrow> int" where
  \<comment> \<open>\<open>(b.date() - a.date()).days\<close>\<close>
  "days_between a b = int (ordinal b) - int (ordinal a)"

definition dt_less :: "datetime \<Rightarrow> datetime \<Rightarrow> bool" where
  "dt_less a b = (ordinal a < ordinal b \<or> (ordinal a = ordinal b \<and> usec a < usec b))"

definition dt_le :: "datetime \<Rightarrow> datetime \<Rightarrow> bool" where
  "dt_le a b = (ordinal a < ordinal b \<or> (ordinal a = ordinal b \<and> usec a \<le> usec b))"

definition in_window :: "datetime \<Rightarrow> datetime \<Rightarrow> datetime \<Rightarrow> bool" where
  \<comment> \<open>\<open>ts >= lo AND ts < hi\<close>\<close>
  "in_window lo hi ts = (dt_le lo ts \<and> dt_less ts hi)"

section \<open>Record sources and query execution\<close>

text \<open>
  One record per table row, with the columns the queries read. Rows whose
  \<open>Time_Stamp\<close> is NULL satisfy none of the filters below and are left out of the
  tables. The client identifier \<open>C1\<close> of \<open>Rel_Carga\<close> is taken as an integer column.
\<close>

record sts_dados_row =
  sd_Time_Stamp :: datetime
  D1 :: "real option"
  D2 :: "real option"
  D3 :: "real option"

record rel_diario_row =
  rd_Time_Stamp :: datetime
  rd_C0 :: "real option"
  rd_C1 :: "real option"
  rd_C2 :: "real option"
  rd_C4 :: "real option"
  rd_C5 :: "int option"

record rel_carga_row =
  rc_Time_Stamp :: datetime
  rc_C1 :: "int option"
  rc_C2 :: "real option"
  rc_C3 :: "real option"

record rel_quimico_row =
  rq_Time_Stamp :: datetime
  Q1 :: "real option"
  Q2 :: "real option"
  Q3 :: "real option"
  Q4 :: "real option"
  Q5 :: "real option"
  Q6 :: "real option"
  Q7 :: "real option"
  Q8 :: "real option"
  Q9 :: "real option"

record alarm_row =
  Al_Start_Time :: datetime
  Al_Norm_Time :: "datetime option"

text \<open>
  The world a request runs in: the tables, the alias store
  (\<open>app.client_alias\<close>, keyed by \<open>client_id\<close>), the application's clock \<open>now\<close>, the database's \<open>CURRENT_DATE\<close> (a day
  number), and for each query (named by the variable that holds its text) whether the
  database answers it.
\<close>

record world =
  sts_dados :: "sts_dados_row list"
  rel_diario :: "rel_diario_row list"
  rel_carga :: "rel_carga_row list"
  rel_quimico :: "rel_quimico_row list"
  alarmhistory :: "alarm_row list"
  client_alias :: "int \<Rightarrow> string option"
  answers :: "string \<Rightarrow> bool"
  now :: datetime
  current_date :: nat

text \<open>
  A pandas DataFrame: \<open>NoColumns\<close> is \<open>pd.DataFrame()\<close>, which both
  \<open>execute_query\<close> functions return when the connection or the query fails;
  \<open>Frame rows\<close> is the result of a query that ran.
\<close>

datatype 'a frame = NoColumns | Frame "'a list"

fun empty :: "'a frame \<Rightarrow> bool" where
  "empty NoColumns = True"
| "empty (Frame rows) = (rows = [])"

fun iloc0 :: "'a frame \<Rightarrow> 'a option" where
  \<comment> \<open>\<open>df.iloc[0] if not df.empty else None\<close>\<close>
  "iloc0 (Frame (r # rows)) = Some r"
| "iloc0 _ = None"

definition execute_query :: "world \<Rightarrow> string \<Rightarrow> sql_error + 'a list \<Rightarrow> 'a frame" where
  "execute_query w name result =
     (if answers w name then (case result of Inr rows \<Rightarrow> Frame rows | Inl e \<Rightarrow> NoColumns)
      else NoColumns)"

section \<open>\<open>generate_executive_report\<close> (dstech\_app.py)\<close>

text \<open>
  The arguments are \<open>None\<close> or a \<open>datetime\<close>, as every caller passes them (the branch
  that parses a string first is not modelled). The record \<open>summary\<close> holds the numbers
  behind the returned dictionary; the source formats them into strings and adds the time
  of the call. The two alarm counts are queried but not returned. Both defaults read one
  clock value \<open>now\<close>.
\<close>

record summary =
  period_days :: int
  total_kg :: real
  total_cycles :: int
  daily_avg :: real
  peso_medio :: real
  total_water_liters :: real
  agua_por_kg :: real
  total_chemicals :: real
  chemicals_per_kg :: real

definition prod_query :: "world \<Rightarrow> datetime \<Rightarrow> datetime \<Rightarrow> real list" where
  "prod_query w lo hi =
     [coalesce (sql_sum (map rd_C4 (filter (\<lambda>r. in_window lo hi (rd_Time_Stamp r)) (rel_diario w)))) 0]"

definition cycles_water_query :: "world \<Rightarrow> datetime \<Rightarrow> datetime \<Rightarrow> (real \<times> real) list" where
  "cycles_water_query w lo hi =
     (let rows = filter (\<lambda>r. in_window lo hi (sd_Time_Stamp r)) (sts_dados w)
      in [(coalesce (sql_sum (map D2 rows)) 0,
           coalesce (sql_mul (sql_sum (map D1 rows)) (Some 1000)) 0)])"

definition q1_to_q5 :: "rel_quimico_row \<Rightarrow> real" where
  "q1_to_q5 r = coalesce (Q1 r) 0 + coalesce (Q2 r) 0 + coalesce (Q3 r) 0
                  + coalesce (Q4 r) 0 + coalesce (Q5 r) 0"

definition chem_query :: "world \<Rightarrow> datetime \<Rightarrow> datetime \<Rightarrow> real list" where
  "chem_query w lo hi =
     [coalesce (sql_sum (map (\<lambda>r. Some (q1_to_q5 r))
        (filter (\<lambda>r. in_window lo hi (rq_Time_Stamp r)) (rel_quimico w)))) 0]"

definition zero_report :: summary where
  \<comment> \<open>The dictionary returned by the \<open>except\<close> branch.\<close>
  "zero_report =
     \<lparr>period_days = 0, total_kg = 0, total_cycles = 0, daily_avg = 0, peso_medio = 0,
      total_water_liters = 0, agua_por_kg = 0, total_chemicals = 0, chemicals_per_kg = 0\<rparr>"

definition rounded_ratio :: "bool \<Rightarrow> real \<Rightarrow> real \<Rightarrow> nat \<Rightarrow> py_error + real" where
  \<comment> \<open>\<open>round((a / b), n) if guard else 0.0\<close>\<close>
  "rounded_ratio guard a b n =
     (if guard then and_then (py_div a b) (\<lambda>q. Inr (py_round q n)) else Inr 0)"

definition report_from :: "world \<Rightarrow> datetime \<Rightarrow> datetime \<Rightarrow> datetime \<Rightarrow> py_error + summary" where
  \<comment> \<open>The body of the \<open>try\<close> block, from the three bounds.\<close>
  "report_from w start_dt end_dt end_exclusive =
     (let prod_df = execute_query w ''prod_query'' (Inr (prod_query w start_dt end_exclusive));
          cycles_water_df = execute_query w ''cycles_water_query''
                              (Inr (cycles_water_query w start_dt end_exclusive));
          kg = (case iloc0 prod_df of Some v \<Rightarrow> v | None \<Rightarrow> 0);
          cycles = (case iloc0 cycles_water_df of Some (c, l) \<Rightarrow> py_int c | None \<Rightarrow> 0);
          water = (case iloc0 cycles_water_df of Some (c, l) \<Rightarrow> l | None \<Rightarrow> 0);
          chem_df = execute_query w ''chem_query'' (Inr (chem_query w start_dt end_exclusive));
          chemicals = (case iloc0 chem_df of Some v \<Rightarrow> v | None \<Rightarrow> 0);
          days_diff = days_between start_dt end_dt + 1
      in and_then (rounded_ratio (0 < cycles) kg (of_int cycles) 2) (\<lambda>peso.
         and_then (rounded_ratio (0 < kg) water kg 2) (\<lambda>agua.
         and_then (rounded_ratio (0 < kg) chemicals kg 4) (\<lambda>chem_kg.
         and_then (rounded_ratio (0 < days_diff) kg (of_int days_diff) 0) (\<lambda>avg.
           Inr \<lparr>period_days = days_diff,
                total_kg = kg,
                total_cycles = cycles,
                daily_avg = avg,
                peso_medio = peso,
                total_water_liters = water,
                agua_por_kg = agua,
                total_chemicals = chemicals,
                chemicals_per_kg = chem_kg\<rparr>)))))"

definition report_end_exclusive :: "datetime \<Rightarrow> py_error + datetime" where
  \<comment> \<open>\<open>end_exclusive = end_dt + timedelta(days=1)\<close>, before the \<open>try\<close> block.\<close>
  "report_end_exclusive end_dt = plus_days end_dt 1"

definition generate_executive_report ::
  "world \<Rightarrow> datetime option \<Rightarrow> datetime option \<Rightarrow> py_error + summary" where
  "generate_executive_report w start_date end_date =
     (case (case start_date of None \<Rightarrow> minus_days (now w) 7 | Some d \<Rightarrow> Inr d) of
        Inl e \<Rightarrow> Inl e
      | Inr start_dt \<Rightarrow>
          (let end_dt = (case end_date of None \<Rightarrow> now w | Some d \<Rightarrow> d)
           in case report_end_exclusive end_dt of
                Inl e \<Rightarrow> Inl e
              | Inr end_exclusive \<Rightarrow>
                  (case report_from w start_dt end_dt end_exclusive of
                     Inr report \<Rightarrow> Inr report
                   | Inl e \<Rightarrow> Inr zero_report)))"

section \<open>\<open>build_report_datasets\<close> (dstech\_app.py)\<close>

subsection \<open>Text of a client identifier\<close>

definition digit_char :: "nat \<Rightarrow> char" where
  "digit_char d = ''0123456789'' ! d"

function show_nat :: "nat \<Rightarrow> string" where
  "show_nat n = (if n < 10 then [digit_char n] else show_nat (n div 10) @ [digit_char (n mod 10)])"
  by pat_completeness auto
termination
  by (relation "measure id") auto

declare show_nat.simps [simp del]

definition cast_text :: "int \<Rightarrow> string" where
  \<comment> \<open>\<open>CAST(i AS TEXT)\<close> of an integer\<close>
  "cast_text i = (if i < 0 then CHR ''-'' # show_nat (nat (- i)) else show_nat (nat i))"

fun concat_text :: "string \<Rightarrow> string option \<Rightarrow> string option" where
  \<comment> \<open>\<open>s || t\<close> is NULL when \<open>t\<close> is\<close>
  "concat_text s None = None"
| "concat_text s (Some t) = Some (s @ t)"

definition alias_of :: "world \<Rightarrow> int option \<Rightarrow> string option" where
  \<comment> \<open>\<open>ca.alias\<close> after \<open>LEFT JOIN app.client_alias ca ON CAST(C1 AS INTEGER) = ca.client_id\<close>\<close>
  "alias_of w c = (case c of None \<Rightarrow> None | Some i \<Rightarrow> client_alias w i)"

definition client_display_of :: "world \<Rightarrow> int option \<Rightarrow> string option" where
  \<comment> \<open>\<open>COALESCE(ca.alias, 'Cliente ' || CAST(rc."C1" AS TEXT))\<close>\<close>
  "client_display_of w c =
     (case alias_of w c of Some a \<Rightarrow> Some a
      | None \<Rightarrow> concat_text ''Cliente '' (map_option cast_text c))"

subsection \<open>The grouped queries\<close>

record prod_client_row =
  client_id :: "int option"
  client_display :: "string option"
  total_cargas :: nat
  pc_total_kg :: real
  peso_medio_kg :: real

record daily_prod_row =
  dp_dia :: nat
  cargas :: nat
  dp_kg :: real

record water_daily_row =
  wd_dia :: nat
  wd_kg :: real
  wd_ciclos :: nat
  wd_agua_litros :: real

record chemicals_daily_row =
  cd_dia :: nat
  cd_quimicos :: real

record water_chem_row =
  wc_dia :: nat
  wc_kg :: "real option"
  wc_ciclos :: "real option"
  wc_agua_litros :: "real option"
  wc_quimicos :: "real option"
  wc_agua_por_kg :: "real option"
  wc_quimicos_por_kg :: "real option"

record alarms_daily_row =
  ad_dia :: nat
  alarmes :: nat

definition cargas_in :: "world \<Rightarrow> datetime \<Rightarrow> datetime \<Rightarrow> rel_carga_row list" where
  "cargas_in w lo hi = filter (\<lambda>r. in_window lo hi (rc_Time_Stamp r)) (rel_carga w)"

definition prod_client_group :: "world \<Rightarrow> rel_carga_row list \<Rightarrow> int option \<Rightarrow> prod_client_row" where
  "prod_client_group w rows c =
     (let g = filter (\<lambda>r. rc_C1 r = c) rows
      in \<lparr>client_id = c,
          client_display = client_display_of w c,
          total_cargas = length g,
          pc_total_kg = coalesce (sql_sum (map rc_C2 g)) 0,
          peso_medio_kg = coalesce (sql_avg (map (\<lambda>r. nullif (rc_C2 r) 0) g)) 0\<rparr>)"

definition prod_client_sql :: "world \<Rightarrow> datetime \<Rightarrow> datetime \<Rightarrow> prod_client_row list" where
  \<comment> \<open>\<open>GROUP BY rc."C1", ca.alias ORDER BY total_kg DESC\<close>; the alias is a function of
      \<open>C1\<close>. Rows of equal \<open>total_kg\<close> keep the order in which their client first occurs.\<close>
  "prod_client_sql w lo hi =
     (let rows = cargas_in w lo hi
      in sort_key (\<lambda>r. - pc_total_kg r)
           (map (prod_client_group w rows) (remdups (map rc_C1 rows))))"

definition daily_prod_sql :: "world \<Rightarrow> datetime \<Rightarrow> datetime \<Rightarrow> daily_prod_row list" where
  \<comment> \<open>\<open>GROUP BY "Time_Stamp"::date ORDER BY dia\<close>\<close>
  "daily_prod_sql w lo hi =
     (let rows = cargas_in w lo hi
      in map (\<lambda>d. let g = filter (\<lambda>r. ordinal (rc_Time_Stamp r) = d) rows
                  in \<lparr>dp_dia = d, cargas = length g, dp_kg = coalesce (sql_sum (map rc_C2 g)) 0\<rparr>)
           (sort (remdups (map (\<lambda>r. ordinal (rc_Time_Stamp r)) rows))))"

definition water_daily_sql :: "world \<Rightarrow> datetime \<Rightarrow> datetime \<Rightarrow> water_daily_row list" where
  "water_daily_sql w lo hi =
     (let rows = filter (\<lambda>r. in_window lo hi (rd_Time_Stamp r)) (rel_diario w)
      in map (\<lambda>d. let g = filter (\<lambda>r. ordinal (rd_Time_Stamp r) = d) rows
                  in \<lparr>wd_dia = d,
                      wd_kg = coalesce (sql_sum (map rd_C4 g)) 0,
                      wd_ciclos = length g,
                      wd_agua_litros = coalesce (sql_mul (sql_sum (map rd_C2 g)) (Some 1000)) 0\<rparr>)
           (sort (remdups (map (\<lambda>r. ordinal (rd_Time_Stamp r)) rows))))"

definition chemicals_daily_sql :: "world \<Rightarrow> datetime \<Rightarrow> datetime \<Rightarrow> chemicals_daily_row list" where
  "chemicals_daily_sql w lo hi =
     (let rows = filter (\<lambda>r. in_window lo hi (rq_Time_Stamp r)) (rel_quimico w)
      in map (\<lambda>d. let g = filter (\<lambda>r. ordinal (rq_Time_Stamp r) = d) rows
                  in \<lparr>cd_dia = d,
                      cd_quimicos = coalesce (sql_sum (map (\<lambda>r. Some (q1_to_q5 r)) g)) 0\<rparr>)
           (sort (remdups (map (\<lambda>r. ordinal (rq_Time_Stamp r)) rows))))"

definition alarms_daily_sql :: "world \<Rightarrow> datetime \<Rightarrow> datetime \<Rightarrow> alarms_daily_row list" where
  "alarms_daily_sql w lo hi =
     (let rows = filter (\<lambda>r. in_window lo hi (Al_Start_Time r)) (alarmhistory w)
      in map (\<lambda>d. \<lparr>ad_dia = d,
                    alarmes = length (filter (\<lambda>r. ordinal (Al_Start_Time r) = d) rows)\<rparr>)
           (sort (remdups (map (\<lambda>r. ordinal (Al_Start_Time r)) rows))))"

subsection \<open>Merging water and chemicals, and the per-kilogram columns\<close>

definition per_kg :: "real option \<Rightarrow> real option \<Rightarrow> py_error + real option" where
  \<comment> \<open>\<open>(float(x) / float(kg)) if (pd.notnull(kg) and kg not in [0, 0.0]) else 0.0\<close>;
      a NaN numerator gives NaN.\<close>
  "per_kg x kg =
     (case kg of
        None \<Rightarrow> Inr (Some 0)
      | Some k \<Rightarrow>
          if k = 0 then Inr (Some 0)
          else (case x of None \<Rightarrow> Inr None
                | Some v \<Rightarrow> and_then (py_div v k) (\<lambda>q. Inr (Some q))))"

definition merged_row ::
  "water_daily_row list \<Rightarrow> chemicals_daily_row list \<Rightarrow> nat \<Rightarrow> py_error + water_chem_row" where
  "merged_row ws cs d =
     (let wr = find (\<lambda>r. wd_dia r = d) ws;
          cr = find (\<lambda>r. cd_dia r = d) cs;
          kg = map_option wd_kg wr;
          agua = map_option wd_agua_litros wr;
          quim = map_option cd_quimicos cr
      in and_then (per_kg agua kg) (\<lambda>agua_kg.
         and_then (per_kg quim kg) (\<lambda>quim_kg.
           Inr \<lparr>wc_dia = d, wc_kg = kg,
                wc_ciclos = map_option (\<lambda>r. real (wd_ciclos r)) wr,
                wc_agua_litros = agua, wc_quimicos = quim,
                wc_agua_por_kg = agua_kg,
                wc_quimicos_por_kg = quim_kg\<rparr>)))"

definition water_chem_merge ::
  "water_daily_row frame \<Rightarrow> chemicals_daily_row frame \<Rightarrow> py_error + water_chem_row list" where
  \<comment> \<open>\<open>pd.merge(water_daily_df, chemicals_daily_df, on='dia', how='outer').sort_values('dia')\<close>
      and the two derived columns; a frame without the column \<open>dia\<close> raises KeyError.\<close>
  "water_chem_merge water_daily_df chemicals_daily_df =
     (case (water_daily_df, chemicals_daily_df) of
        (Frame ws, Frame cs) \<Rightarrow>
          collect (map (merged_row ws cs) (sort (remdups (map wd_dia ws @ map cd_dia cs))))
      | _ \<Rightarrow> Inl KeyError)"

subsection \<open>The builder\<close>

record report_datasets =
  summary_of :: summary
  production_by_client :: "prod_client_row frame"
  daily_production :: "daily_prod_row frame"
  water_chemicals_daily :: "water_chem_row frame"
  alarms_daily :: "alarms_daily_row frame"

definition build_end_exclusive :: "datetime \<Rightarrow> py_error + datetime" where
  \<comment> \<open>\<open>(end_dt + timedelta(days=1)).replace(hour=0, minute=0, second=0, microsecond=0)\<close>\<close>
  "build_end_exclusive end_dt =
     (case plus_days end_dt 1 of Inl e \<Rightarrow> Inl e | Inr d \<Rightarrow> Inr (replace_midnight d))"

definition build_try :: "world \<Rightarrow> datetime \<Rightarrow> datetime \<Rightarrow> py_error + report_datasets" where
  "build_try w start_dt end_dt =
     (case build_end_exclusive end_dt of
        Inl e \<Rightarrow> Inl e
      | Inr end_exclusive \<Rightarrow>
          (case generate_executive_report w (Some start_dt) (Some end_dt) of
             Inl e \<Rightarrow> Inl e
           | Inr summary \<Rightarrow>
               (let prod_client_df = execute_query w ''prod_client_sql''
                      (Inr (prod_client_sql w start_dt end_exclusive));
                    daily_prod_df = execute_query w ''daily_prod_sql''
                      (Inr (daily_prod_sql w start_dt end_exclusive));
                    water_daily_df = execute_query w ''water_daily_sql''
                      (Inr (water_daily_sql w start_dt end_exclusive));
                    chemicals_daily_df = execute_query w ''chemicals_daily_sql''
                      (Inr (chemicals_daily_sql w start_dt end_exclusive))
                in case water_chem_merge water_daily_df chemicals_daily_df of
                     Inl e \<Rightarrow> Inl e
                   | Inr water_chem_daily \<Rightarrow>
                       Inr \<lparr>summary_of = summary,
                            production_by_client = prod_client_df,
                            daily_production = daily_prod_df,
                            water_chemicals_daily = Frame water_chem_daily,
                            alarms_daily = execute_query w ''alarms_daily_sql''
                              (Inr (alarms_daily_sql w start_dt end_exclusive))\<rparr>)))"

definition build_report_datasets ::
  "world \<Rightarrow> world \<Rightarrow> datetime \<Rightarrow> datetime \<Rightarrow> py_error + report_datasets" where
  \<comment> \<open>\<open>w\<close> is the world during the \<open>try\<close> block, \<open>w'\<close> the world when the handler
      calls \<open>generate_executive_report\<close> again.\<close>
  "build_report_datasets w w' start_dt end_dt =
     (case build_try w start_dt end_dt of
        Inr r \<Rightarrow> Inr r
      | Inl e \<Rightarrow>
          (case generate_executive_report w' (Some start_dt) (Some end_dt) of
             Inl e' \<Rightarrow> Inl e'
           | Inr summary \<Rightarrow>
               Inr \<lparr>summary_of = summary,
                    production_by_client = NoColumns,
                    daily_production = NoColumns,
                    water_chemicals_daily = NoColumns,
                    alarms_daily = NoColumns\<rparr>))"

section \<open>\<open>get_operational_kpis\<close> (dstech\_charts.py)\<close>

text \<open>
  The start and end of the period are the timestamps PostgreSQL reads from the interpolated
  strings, or \<open>None\<close>; the client filter is a client number, or \<open>None\<close> for no filter
  (\<open>None\<close> or \<open>'all'\<close> in the source). \<open>execute_query\<close> turns every failure into an empty
  DataFrame, so the two \<open>except\<close> branches of the function (which set both dates to today,
  and return a dictionary of zeros) are not reached by a failing query. The queries
  \<open>production_hoje_query\<close>, \<open>water_hoje_query\<close>, \<open>production_periodo_query\<close> and
  \<open>water_periodo_query\<close> are run, but their results do not enter the dictionary; the two
  period ones are modelled for their filters.
\<close>

subsection \<open>Which day counts as today\<close>

definition today :: "world \<Rightarrow> nat" where
  \<comment> \<open>\<open>date.today()\<close>\<close>
  "today w = ordinal (now w)"

definition sts_dados_hoje_check_query :: "world \<Rightarrow> nat list" where
  \<comment> \<open>\<open>SELECT COUNT(*) FROM "Sts_Dados" WHERE "Time_Stamp"::date = today\<close>\<close>
  "sts_dados_hoje_check_query w =
     [length (filter (\<lambda>r. ordinal (sd_Time_Stamp r) = today w) (sts_dados w))]"

definition sts_dados_hoje_query :: "world \<Rightarrow> nat option list" where
  \<comment> \<open>\<open>SELECT MAX("Time_Stamp"::date) FROM "Sts_Dados"\<close>: NULL on an empty table\<close>
  "sts_dados_hoje_query w =
     [if sts_dados w = [] then None
      else Some (Max (set (map (\<lambda>r. ordinal (sd_Time_Stamp r)) (sts_dados w))))]"

definition has_today_data :: "world \<Rightarrow> bool" where
  "has_today_data w =
     (case iloc0 (execute_query w ''sts_dados_hoje_check_query''
                    (Inr (sts_dados_hoje_check_query w))) of
        Some n \<Rightarrow> 0 < n
      | None \<Rightarrow> False)"

definition latest_date :: "world \<Rightarrow> nat" where
  "latest_date w =
     (case iloc0 (execute_query w ''sts_dados_hoje_query'' (Inr (sts_dados_hoje_query w))) of
        Some (Some max_date) \<Rightarrow> max_date
      | _ \<Rightarrow> today w)"

definition resumo_exec_date :: "world \<Rightarrow> nat" where
  "resumo_exec_date w = (if has_today_data w then today w else latest_date w)"

subsection \<open>The selected period and the client filter\<close>

definition date_filter_periodo ::
  "world \<Rightarrow> datetime option \<Rightarrow> datetime option \<Rightarrow> datetime \<Rightarrow> bool" where
  \<comment> \<open>\<open>"Time_Stamp" >= start_date AND "Time_Stamp" <= end_date\<close> when both are given,
      \<open>"Time_Stamp" >= CURRENT_DATE - INTERVAL '7 days'\<close> otherwise\<close>
  "date_filter_periodo w start_date end_date ts =
     (case (start_date, end_date) of
        (Some a, Some b) \<Rightarrow> dt_le a ts \<and> dt_le ts b
      | _ \<Rightarrow> dt_le \<lparr>ordinal = current_date w - 7, usec = 0\<rparr> ts)"

definition client_filter_sql :: "int option \<Rightarrow> rel_diario_row \<Rightarrow> bool" where
  \<comment> \<open>\<open>AND "C5" = client_filter\<close>, present only when a client is selected\<close>
  "client_filter_sql client_filter r =
     (case client_filter of None \<Rightarrow> True | Some c \<Rightarrow> rd_C5 r = Some c)"

subsection \<open>The queries\<close>

definition case_ratio :: "real option \<Rightarrow> real option \<Rightarrow> nat \<Rightarrow> sql_error + real option" where
  \<comment> \<open>\<open>CASE WHEN d > 0 THEN ROUND(CAST(n / d AS NUMERIC), p) ELSE 0 END\<close>\<close>
  "case_ratio n d p =
     (if sql_gt d 0 then and_then (sql_div n d) (\<lambda>q. Inr (map_option (\<lambda>x. sql_round x p) q))
      else Inr (Some 0))"

record sts_out =
  quilos_lavados :: real
  batchs :: real
  litros_agua :: real
  peso_medio_out :: "real option"
  litros_por_kg :: "real option"

fun latest_row :: "sts_dados_row list \<Rightarrow> sts_dados_row option" where
  \<comment> \<open>\<open>ORDER BY "Time_Stamp" DESC LIMIT 1\<close>\<close>
  "latest_row [] = None"
| "latest_row (r # rs) =
     (case latest_row rs of
        None \<Rightarrow> Some r
      | Some m \<Rightarrow> if dt_less (sd_Time_Stamp r) (sd_Time_Stamp m) then Some m else Some r)"

definition last_of_day :: "world \<Rightarrow> nat \<Rightarrow> sts_dados_row option" where
  "last_of_day w d = latest_row (filter (\<lambda>r. ordinal (sd_Time_Stamp r) = d) (sts_dados w))"

definition sts_select :: "sts_dados_row \<Rightarrow> sql_error + sts_out" where
  "sts_select r =
     and_then (case_ratio (D3 r) (D2 r) 2) (\<lambda>peso.
     and_then (case_ratio (sql_mul (D1 r) (Some 1000)) (D3 r) 2) (\<lambda>por_kg.
       Inr \<lparr>quilos_lavados = coalesce (D3 r) 0,
            batchs = coalesce (D2 r) 0,
            litros_agua = coalesce (D1 r) 0 * 1000,
            peso_medio_out = peso,
            litros_por_kg = por_kg\<rparr>))"

definition sts_day_query :: "world \<Rightarrow> nat \<Rightarrow> sql_error + sts_out list" where
  \<comment> \<open>\<open>sts_hoje_query\<close> (day \<open>latest_date\<close>) and \<open>sts_resumo_exec_query\<close> (day \<open>resumo_exec_date\<close>)\<close>
  "sts_day_query w d =
     (case last_of_day w d of
        None \<Rightarrow> Inr []
      | Some r \<Rightarrow> and_then (sts_select r) (\<lambda>out. Inr [out]))"

definition diario_periodo ::
  "world \<Rightarrow> datetime option \<Rightarrow> datetime option \<Rightarrow> rel_diario_row list" where
  \<comment> \<open>\<open>FROM "Rel_Diario" WHERE date_filter_periodo AND "C4" > 0\<close>\<close>
  "diario_periodo w start_date end_date =
     filter (\<lambda>r. date_filter_periodo w start_date end_date (rd_Time_Stamp r) \<and> sql_gt (rd_C4 r) 0)
       (rel_diario w)"

definition sts_periodo_query ::
  "world \<Rightarrow> datetime option \<Rightarrow> datetime option \<Rightarrow> sql_error + sts_out list" where
  \<comment> \<open>\<open>COUNT(*)\<close> is the denominator of \<open>peso_medio_periodo\<close>\<close>
  "sts_periodo_query w start_date end_date =
     (let rows = diario_periodo w start_date end_date
      in and_then (case_ratio (sql_sum (map rd_C4 rows)) (Some (real (length rows))) 2) (\<lambda>peso.
         and_then (case_ratio (sql_mul (sql_sum (map rd_C2 rows)) (Some 1000))
                     (sql_sum (map rd_C4 rows)) 2) (\<lambda>por_kg.
           Inr [\<lparr>quilos_lavados = coalesce (sql_sum (map rd_C4 rows)) 0,
                 batchs = real (length rows),
                 litros_agua = coalesce (sql_mul (sql_sum (map rd_C2 rows)) (Some 1000)) 0,
                 peso_medio_out = peso,
                 litros_por_kg = por_kg\<rparr>])))"

definition production_periodo_query ::
  "world \<Rightarrow> datetime option \<Rightarrow> datetime option \<Rightarrow> int option \<Rightarrow> (real \<times> nat) list" where
  "production_periodo_query w start_date end_date client_filter =
     (let rows = filter (client_filter_sql client_filter) (diario_periodo w start_date end_date)
      in [(coalesce (sql_sum (map rd_C4 rows)) 0, length rows)])"

definition water_periodo_query ::
  "world \<Rightarrow> datetime option \<Rightarrow> datetime option \<Rightarrow> int option
     \<Rightarrow> sql_error + (real \<times> real option) list" where
  "water_periodo_query w start_date end_date client_filter =
     (let rows = filter (client_filter_sql client_filter) (diario_periodo w start_date end_date)
      in and_then (case_ratio (sql_mul (sql_sum (map rd_C2 rows)) (Some 1000))
                     (sql_sum (map rd_C4 rows)) 2) (\<lambda>por_kg.
           Inr [(coalesce (sql_sum (map rd_C2 rows)) 0 * 1000, por_kg)]))"

definition q1_to_q9 :: "rel_quimico_row \<Rightarrow> real option" where
  \<comment> \<open>\<open>"Q1" + "Q2" + ... + "Q9"\<close>: NULL when any of them is\<close>
  "q1_to_q9 r =
     sql_add (sql_add (sql_add (sql_add (sql_add (sql_add (sql_add (sql_add
       (Q1 r) (Q2 r)) (Q3 r)) (Q4 r)) (Q5 r)) (Q6 r)) (Q7 r)) (Q8 r)) (Q9 r)"

definition chemical_hoje_query :: "world \<Rightarrow> sql_error + (real \<times> real option) list" where
  "chemical_hoje_query w =
     (let total = sql_sum (map q1_to_q9
            (filter (\<lambda>r. ordinal (rq_Time_Stamp r) = resumo_exec_date w) (rel_quimico w)));
          d3 = (case last_of_day w (resumo_exec_date w) of None \<Rightarrow> None | Some r \<Rightarrow> D3 r)
      in and_then (case_ratio total d3 3) (\<lambda>por_kg. Inr [(coalesce total 0, por_kg)]))"

definition chemical_periodo_query ::
  "world \<Rightarrow> datetime option \<Rightarrow> datetime option \<Rightarrow> sql_error + (real \<times> real option) list" where
  "chemical_periodo_query w start_date end_date =
     (let total = sql_sum (map q1_to_q9
            (filter (\<lambda>r. date_filter_periodo w start_date end_date (rq_Time_Stamp r))
               (rel_quimico w)));
          kg = sql_sum (map rd_C4 (diario_periodo w start_date end_date))
      in and_then (case_ratio total kg 3) (\<lambda>por_kg. Inr [(coalesce total 0, por_kg)]))"

definition efficiency_rows ::
  "world \<Rightarrow> datetime option \<Rightarrow> datetime option \<Rightarrow> int option \<Rightarrow> rel_diario_row list" where
  \<comment> \<open>\<open>WHERE date_filter_periodo AND "C1" > 0 AND "C0" >= 0\<close> and the client filter\<close>
  "efficiency_rows w start_date end_date client_filter =
     filter (\<lambda>r. date_filter_periodo w start_date end_date (rd_Time_Stamp r)
                 \<and> sql_gt (rd_C1 r) 0 \<and> sql_ge (rd_C0 r) 0 \<and> client_filter_sql client_filter r)
       (rel_diario w)"

definition efficiency_of :: "rel_diario_row list \<Rightarrow> sql_error + real option" where
  \<comment> \<open>\<open>CASE WHEN SUM("C1" + "C0") > 0
        THEN ROUND(CAST((SUM("C1") / SUM("C1" + "C0")) * 100 AS NUMERIC), 1) ELSE 0 END\<close>\<close>
  "efficiency_of rows =
     (let total = sql_sum (map (\<lambda>r. sql_add (rd_C1 r) (rd_C0 r)) rows)
      in if sql_gt total 0
         then and_then (sql_div (sql_sum (map rd_C1 rows)) total)
                (\<lambda>q. Inr (map_option (\<lambda>x. sql_round x 1) (sql_mul q (Some 100))))
         else Inr (Some 0))"

definition efficiency_query ::
  "world \<Rightarrow> datetime option \<Rightarrow> datetime option \<Rightarrow> int option \<Rightarrow> sql_error + real option list" where
  "efficiency_query w start_date end_date client_filter =
     and_then (efficiency_of (efficiency_rows w start_date end_date client_filter))
       (\<lambda>e. Inr [e])"

definition alarms_query :: "world \<Rightarrow> nat list" where
  "alarms_query w =
     [length (filter (\<lambda>r. ordinal (Al_Start_Time r) = today w \<and> Al_Norm_Time r = None)
                (alarmhistory w))]"

subsection \<open>The KPI dictionary\<close>

definition cell :: "'a frame \<Rightarrow> ('a \<Rightarrow> real option) \<Rightarrow> real" where
  \<comment> \<open>\<open>float(df.iloc[0][c]) if not df.empty and df.iloc[0][c] is not None else 0\<close>\<close>
  "cell df c = (case iloc0 df of None \<Rightarrow> 0 | Some r \<Rightarrow> coalesce (c r) 0)"

record kpis =
  quilos_lavados_hoje_raw :: real
  ciclos_hoje :: int
  litros_agua_hoje_raw :: real
  litros_por_kg_hoje :: real
  peso_medio_hoje :: real
  ml_quimicos_hoje :: real
  ml_quimicos_por_kg_hoje :: real
  quilos_lavados_resumo_raw :: real
  ciclos_resumo :: int
  litros_agua_resumo_raw :: real
  litros_por_kg_resumo :: real
  peso_medio_resumo :: real
  quilos_lavados_periodo_raw :: real
  ciclos_periodo :: int
  litros_agua_periodo_raw :: real
  litros_por_kg_periodo :: real
  peso_medio_periodo :: real
  ml_quimicos_periodo :: real
  ml_quimicos_por_kg_periodo :: real
  eficiencia_media :: real
  alarmes_ativos :: nat

definition get_operational_kpis ::
  "world \<Rightarrow> datetime option \<Rightarrow> datetime option \<Rightarrow> int option \<Rightarrow> kpis" where
  "get_operational_kpis w start_date end_date client_filter =
     (let sts_hoje_df = execute_query w ''sts_hoje_query'' (sts_day_query w (latest_date w));
          sts_periodo_df = execute_query w ''sts_periodo_query''
                             (sts_periodo_query w start_date end_date);
          sts_resumo_exec_df = execute_query w ''sts_resumo_exec_query''
                                 (sts_day_query w (resumo_exec_date w));
          chemical_hoje_df = execute_query w ''chemical_hoje_query'' (chemical_hoje_query w);
          chemical_periodo_df = execute_query w ''chemical_periodo_query''
                                  (chemical_periodo_query w start_date end_date);
          efficiency_df = execute_query w ''efficiency_query''
                            (efficiency_query w start_date end_date client_filter);
          alarms_df = execute_query w ''alarms_query'' (Inr (alarms_query w))
      in \<lparr>quilos_lavados_hoje_raw = py_round (cell sts_hoje_df (\<lambda>r. Some (quilos_lavados r))) 0,
          ciclos_hoje = py_int (cell sts_hoje_df (\<lambda>r. Some (batchs r))),
          litros_agua_hoje_raw = py_round (cell sts_hoje_df (\<lambda>r. Some (litros_agua r))) 0,
          litros_por_kg_hoje = cell sts_hoje_df litros_por_kg,
          peso_medio_hoje = cell sts_hoje_df peso_medio_out,
          ml_quimicos_hoje = py_round (cell chemical_hoje_df (\<lambda>r. Some (fst r))) 0,
          ml_quimicos_por_kg_hoje = py_round (cell chemical_hoje_df snd) 3,
          quilos_lavados_resumo_raw =
            py_round (cell sts_resumo_exec_df (\<lambda>r. Some (quilos_lavados r))) 0,
          ciclos_resumo = py_int (cell sts_resumo_exec_df (\<lambda>r. Some (batchs r))),
          litros_agua_resumo_raw = py_round (cell sts_resumo_exec_df (\<lambda>r. Some (litros_agua r))) 0,
          litros_por_kg_resumo = cell sts_resumo_exec_df litros_por_kg,
          peso_medio_resumo = cell sts_resumo_exec_df peso_medio_out,
          quilos_lavados_periodo_raw = py_round (cell sts_periodo_df (\<lambda>r. Some (quilos_lavados r))) 0,
          ciclos_periodo = py_int (cell sts_periodo_df (\<lambda>r. Some (batchs r))),
          litros_agua_periodo_raw = py_round (cell sts_periodo_df (\<lambda>r. Some (litros_agua r))) 0,
          litros_por_kg_periodo = cell sts_periodo_df litros_por_kg,
          peso_medio_periodo = cell sts_periodo_df peso_medio_out,
          ml_quimicos_periodo = py_round (cell chemical_periodo_df (\<lambda>r. Some (fst r))) 0,
          ml_quimicos_por_kg_periodo = py_round (cell chemical_periodo_df snd) 3,
          eficiencia_media = py_round (cell efficiency_df id) 1,
          alarmes_ativos = (case iloc0 alarms_df of None \<Rightarrow> 0 | Some n \<Rightarrow> n)\<rparr>)"

section \<open>\<open>get_dashboard_summary\<close> and \<open>get_client_performance_comparison\<close>\<close>

definition row_efficiency :: "rel_diario_row \<Rightarrow> sql_error + real option" where
  \<comment> \<open>\<open>("C1" / ("C1" + "C0")) * 100\<close>, with no guard on the denominator\<close>
  "row_efficiency r =
     and_then (sql_div (rd_C1 r) (sql_add (rd_C1 r) (rd_C0 r)))
       (\<lambda>q. Inr (sql_mul q (Some 100)))"

definition production_summary :: "world \<Rightarrow> sql_error + real option list" where
  \<comment> \<open>The column \<open>avg_efficiency\<close> over the rows of the last 30 days\<close>
  "production_summary w =
     and_then (collect (map row_efficiency
                 (filter (\<lambda>r. dt_le \<lparr>ordinal = current_date w - 30, usec = 0\<rparr> (rd_Time_Stamp r))
                    (rel_diario w))))
       (\<lambda>vs. Inr [sql_avg vs])"

definition avg_efficiency :: "world \<Rightarrow> real" where
  \<comment> \<open>\<open>round(prod_df.iloc[0]['avg_efficiency'], 1) if not prod_df.empty else 0\<close>; rounding
      None raises TypeError, and the handler returns the dictionary of zeros.\<close>
  "avg_efficiency w =
     (case iloc0 (execute_query w ''production_summary'' (production_summary w)) of
        Some (Some v) \<Rightarrow> py_round v 1
      | _ \<Rightarrow> 0)"

definition client_name :: "int option \<Rightarrow> string option" where
  \<comment> \<open>\<open>'Cliente ' || CAST("C1" AS TEXT) as client_name\<close>\<close>
  "client_name c = concat_text ''Cliente '' (map_option cast_text c)"

section \<open>Example worlds and the notions of the statements\<close>

definition quiet_world :: world where
  \<comment> \<open>Empty tables, no aliases, every query answered, the clock at noon of 2024-01-10.\<close>
  "quiet_world =
     \<lparr>sts_dados = [], rel_diario = [], rel_carga = [], rel_quimico = [], alarmhistory = [],
      client_alias = (\<lambda>i. None), answers = (\<lambda>q. True),
      now = at_time (ymd 2024 1 10) 12 0 0, current_date = ymd 2024 1 10\<rparr>"

definition late_diario_world :: world where
  \<comment> \<open>One consolidated-daily row of 50 kg at 10:00 on 2024-01-08.\<close>
  "late_diario_world = quiet_world\<lparr>rel_diario :=
     [\<lparr>rd_Time_Stamp = at_time (ymd 2024 1 8) 10 0 0, rd_C0 = Some 0, rd_C1 = Some 60,
       rd_C2 = Some 1, rd_C4 = Some 50, rd_C5 = None\<rparr>]\<rparr>"

definition two_polls_world :: world where
  \<comment> \<open>Two status polls on 2024-01-10: the counters read 1 cycle, 1 m3, 10 kg at 10:00 and
      2 cycles, 2 m3, 20 kg at 11:00.\<close>
  "two_polls_world = quiet_world\<lparr>sts_dados :=
     [\<lparr>sd_Time_Stamp = at_time (ymd 2024 1 10) 10 0 0, D1 = Some 1, D2 = Some 1, D3 = Some 10\<rparr>,
      \<lparr>sd_Time_Stamp = at_time (ymd 2024 1 10) 11 0 0, D1 = Some 2, D2 = Some 2, D3 = Some 20\<rparr>]\<rparr>"

definition three_loads_world :: world where
  \<comment> \<open>Three loads of the unaliased client 7: 100 kg / 50, 200 kg / 80 and 0 kg / 0.\<close>
  "three_loads_world = quiet_world\<lparr>rel_carga :=
     [\<lparr>rc_Time_Stamp = at_time (ymd 2024 1 2) 8 0 0, rc_C1 = Some 7,
       rc_C2 = Some 100, rc_C3 = Some 50\<rparr>,
      \<lparr>rc_Time_Stamp = at_time (ymd 2024 1 3) 9 0 0, rc_C1 = Some 7,
       rc_C2 = Some 200, rc_C3 = Some 80\<rparr>,
      \<lparr>rc_Time_Stamp = at_time (ymd 2024 1 5) 10 0 0, rc_C1 = Some 7,
       rc_C2 = Some 0, rc_C3 = Some 0\<rparr>]\<rparr>"

definition dec_value :: "string \<Rightarrow> nat" where
  \<comment> \<open>The number a string of decimal digits denotes.\<close>
  "dec_value s = foldl (\<lambda>a c. 10 * a + (of_char c - 48)) 0 s"

definition busy_day_row :: rel_diario_row where
  \<comment> \<open>A day of 100 kg, 2 m3 of water, 540 minutes of production and 60 of downtime.\<close>
  "busy_day_row =
     \<lparr>rd_Time_Stamp = at_time (ymd 2024 1 8) 23 0 0, rd_C0 = Some 60, rd_C1 = Some 540,
      rd_C2 = Some 2, rd_C4 = Some 100, rd_C5 = None\<rparr>"

definition zero_day_row :: rel_diario_row where
  \<comment> \<open>A day with no production that still used 5 m3 of water.\<close>
  "zero_day_row =
     \<lparr>rd_Time_Stamp = at_time (ymd 2024 1 9) 23 0 0, rd_C0 = Some 600, rd_C1 = Some 0,
      rd_C2 = Some 5, rd_C4 = Some 0, rd_C5 = None\<rparr>"

definition unproductive_day_row :: rel_diario_row where
  \<comment> \<open>A day with no production, 5 m3 of water, 60 minutes of production time and 540 of
      downtime.\<close>
  "unproductive_day_row =
     \<lparr>rd_Time_Stamp = at_time (ymd 2024 1 9) 23 0 0, rd_C0 = Some 540, rd_C1 = Some 60,
      rd_C2 = Some 5, rd_C4 = Some 0, rd_C5 = None\<rparr>"

definition periodo_kpis :: "kpis \<Rightarrow> real \<times> int \<times> real \<times> real \<times> real \<times> real" where
  \<comment> \<open>The period entries of the KPI dictionary that are fed by \<open>Rel_Diario\<close> kilograms,
      water and row count.\<close>
  "periodo_kpis k =
     (quilos_lavados_periodo_raw k, ciclos_periodo k, litros_agua_periodo_raw k,
      litros_por_kg_periodo k, peso_medio_periodo k, ml_quimicos_por_kg_periodo k)"

definition diario_minutes :: "nat \<Rightarrow> real \<Rightarrow> real \<Rightarrow> rel_diario_row" where
  \<comment> \<open>A consolidated-daily record with the given production time and downtime.\<close>
  "diario_minutes day production_time downtime =
     \<lparr>rd_Time_Stamp = at_time day 23 0 0, rd_C0 = Some downtime, rd_C1 = Some production_time,
      rd_C2 = Some 1, rd_C4 = Some 100, rd_C5 = None\<rparr>"

definition idle_day_world :: world where
  \<comment> \<open>The records (production\_time = 10, downtime = 0) and (0, 10).\<close>
  "idle_day_world = quiet_world\<lparr>rel_diario :=
     [diario_minutes (ymd 2024 1 8) 10 0, diario_minutes (ymd 2024 1 9) 0 10]\<rparr>"

definition uneven_days_world :: world where
  \<comment> \<open>The records (90, 10) and (10, 90).\<close>
  "uneven_days_world = quiet_world\<lparr>rel_diario :=
     [diario_minutes (ymd 2024 1 8) 90 10, diario_minutes (ymd 2024 1 9) 10 90]\<rparr>"

definition short_day_world :: world where
  \<comment> \<open>The records (90, 10) and (10, 0).\<close>
  "short_day_world = quiet_world\<lparr>rel_diario :=
     [diario_minutes (ymd 2024 1 8) 90 10, diario_minutes (ymd 2024 1 9) 10 0]\<rparr>"

definition minutes :: "rel_diario_row \<Rightarrow> real \<times> real" where
  \<comment> \<open>Production time and downtime of a record.\<close>
  "minutes r = (coalesce (rd_C1 r) 0, coalesce (rd_C0 r) 0)"

definition summed_efficiency :: "(real \<times> real) list \<Rightarrow> real" where
  \<comment> \<open>The specification's formula:
      \<open>sum(production_time) / sum(production_time + downtime) * 100\<close>, 0 on a zero denominator.\<close>
  "summed_efficiency ms =
     (let production = sum_list (map fst ms);
          total = sum_list (map (\<lambda>m. fst m + snd m) ms)
      in if 0 < total then production / total * 100 else 0)"

definition poll :: "datetime \<Rightarrow> real \<Rightarrow> real \<Rightarrow> real \<Rightarrow> sts_dados_row" where
  \<comment> \<open>A status poll reading the cumulative water, cycles and kilograms.\<close>
  "poll ts water cycles kg =
     \<lparr>sd_Time_Stamp = ts, D1 = Some water, D2 = Some cycles, D3 = Some kg\<rparr>"




definition sts_dates :: "world \<Rightarrow> nat list" where
  \<comment> \<open>The dates present in \<open>Sts_Dados\<close>.\<close>
  "sts_dates w = map (\<lambda>r. ordinal (sd_Time_Stamp r)) (sts_dados w)"




definition chem_row :: "datetime \<Rightarrow> real \<Rightarrow> rel_quimico_row" where
  \<comment> \<open>A chemical record with the same quantity in each of the nine fields.\<close>
  "chem_row ts q =
     \<lparr>rq_Time_Stamp = ts, Q1 = Some q, Q2 = Some q, Q3 = Some q, Q4 = Some q, Q5 = Some q,
      Q6 = Some q, Q7 = Some q, Q8 = Some q, Q9 = Some q\<rparr>"

definition dry_world :: world where
  \<comment> \<open>Water and chemicals were used, nothing was produced: one poll of 5 m3 with no
      cycles and no kilograms, one consolidated day of 5 m3 and 0 kg, one chemical record.\<close>
  "dry_world = quiet_world\<lparr>
     sts_dados := [poll (at_time (ymd 2024 1 10) 9 0 0) 5 0 0],
     rel_diario := [zero_day_row],
     rel_quimico := [chem_row (at_time (ymd 2024 1 10) 9 0 0) 1]\<rparr>"

definition jan_1 :: datetime where
  "jan_1 = at_time (ymd 2024 1 1) 0 0 0"

definition jan_7 :: datetime where
  "jan_7 = at_time (ymd 2024 1 7) 0 0 0"

definition three_loads_report :: report_datasets where
  \<comment> \<open>What the builder returns for \<open>three_loads_world\<close> and the window 2024-01-01 to 2024-01-07.\<close>
  "three_loads_report =
     \<lparr>summary_of = \<lparr>period_days = 7, total_kg = 0, total_cycles = 0, daily_avg = 0,
        peso_medio = 0, total_water_liters = 0, agua_por_kg = 0, total_chemicals = 0,
        chemicals_per_kg = 0\<rparr>,
      production_by_client = Frame [\<lparr>client_id = Some 7, client_display = Some ''Cliente 7'',
        total_cargas = 3, pc_total_kg = 300, peso_medio_kg = 150\<rparr>],
      daily_production = Frame [\<lparr>dp_dia = ymd 2024 1 2, cargas = 1, dp_kg = 100\<rparr>,
        \<lparr>dp_dia = ymd 2024 1 3, cargas = 1, dp_kg = 200\<rparr>,
        \<lparr>dp_dia = ymd 2024 1 5, cargas = 1, dp_kg = 0\<rparr>],
      water_chemicals_daily = Frame [],
      alarms_daily = Frame []\<rparr>"


definition load :: "datetime \<Rightarrow> int \<Rightarrow> real \<Rightarrow> real \<Rightarrow> rel_carga_row" where
  \<comment> \<open>A load of a client, with its kilograms and water.\<close>
  "load ts client kg water =
     \<lparr>rc_Time_Stamp = ts, rc_C1 = Some client, rc_C2 = Some kg, rc_C3 = Some water\<rparr>"

definition jan_8 :: datetime where
  "jan_8 = at_time (ymd 2024 1 8) 0 0 0"

definition full_week_world :: world where
  \<comment> \<open>The three loads of client 7, one status poll reading 130 m3 of water and three
      consolidated days of 100 kg each.\<close>
  "full_week_world = three_loads_world\<lparr>
     sts_dados := [poll (at_time (ymd 2024 1 5) 20 0 0) 130 3 300],
     rel_diario := [diario_minutes (ymd 2024 1 2) 500 40, diario_minutes (ymd 2024 1 3) 500 40,
                    diario_minutes (ymd 2024 1 5) 500 40]\<rparr>"

definition offline_world :: world where
  \<comment> \<open>As \<open>full_week_world\<close>, with no query answered.\<close>
  "offline_world = full_week_world\<lparr>answers := (\<lambda>q. False)\<rparr>"

definition window_kg :: "world \<Rightarrow> datetime \<Rightarrow> datetime \<Rightarrow> real" where
  \<comment> \<open>The kilograms the report reads: \<open>SUM("C4")\<close> of \<open>Rel_Diario\<close> over the window.\<close>
  "window_kg w lo hi =
     (if answers w ''prod_query''
      then coalesce (sql_sum (map rd_C4
             (filter (\<lambda>r. in_window lo hi (rd_Time_Stamp r)) (rel_diario w)))) 0
      else 0)"

section \<open>Evaluation rules\<close>

lemmas date_defs = ymd_def days_before_year_def days_before_month_def is_leap_def at_time_def
  max_ordinal_def plus_days_def minus_days_def replace_midnight_def days_between_def
  dt_less_def dt_le_def in_window_def

lemma non_null_simps:
  "non_null [] = []"
  "non_null (None # vs) = non_null vs"
  "non_null (Some a # vs) = a # non_null vs"
  by (simp_all add: non_null_def)

lemmas value_defs = sql_sum_def sql_avg_def non_null_simps py_int_def py_round_def
  round_half_even_def sql_round_def py_div_def rounded_ratio_def case_ratio_def cell_def
  execute_query_def Let_def

lemmas report_defs = generate_executive_report_def report_end_exclusive_def report_from_def
  prod_query_def cycles_water_query_def chem_query_def q1_to_q5_def zero_report_def

lemmas kpi_defs = get_operational_kpis_def today_def has_today_data_def latest_date_def
  resumo_exec_date_def sts_dados_hoje_check_query_def sts_dados_hoje_query_def
  date_filter_periodo_def client_filter_sql_def last_of_day_def sts_select_def
  sts_day_query_def diario_periodo_def sts_periodo_query_def chemical_hoje_query_def
  chemical_periodo_query_def q1_to_q9_def efficiency_rows_def efficiency_of_def
  efficiency_query_def alarms_query_def

lemmas build_defs = build_report_datasets_def build_try_def build_end_exclusive_def
  cargas_in_def prod_client_group_def prod_client_sql_def daily_prod_sql_def
  water_daily_sql_def chemicals_daily_sql_def alarms_daily_sql_def per_kg_def merged_row_def
  water_chem_merge_def alias_of_def client_display_of_def client_name_def cast_text_def
  show_nat.simps digit_char_def

section \<open>The end of the window\<close>

lemma build_end_exclusive_floor:
  "ordinal end_dt < max_ordinal \<Longrightarrow>
   build_end_exclusive end_dt = Inr \<lparr>ordinal = ordinal end_dt + 1, usec = 0\<rparr>"
  by (cases end_dt) (simp add: build_end_exclusive_def plus_days_def replace_midnight_def)

lemma report_end_exclusive_shift:
  "ordinal end_dt < max_ordinal \<Longrightarrow>
   report_end_exclusive end_dt = Inr \<lparr>ordinal = ordinal end_dt + 1, usec = usec end_dt\<rparr>"
  by (cases end_dt) (simp add: report_end_exclusive_def plus_days_def)

text \<open>
  Claim C5: the exclusive upper bound of the window is midnight of the end date plus one
  day, whatever time of day the end carries. \<open>build_report_datasets\<close> floors the bound
  to midnight (\<open>build_end_exclusive_floor\<close>); \<open>generate_executive_report\<close> adds one day
  and keeps the time of day. For the window from 2024-01-01 to 2024-01-07 15:30 its bound
  is 2024-01-08 15:30, and the 50 kg recorded at 10:00 on 2024-01-08 are counted in the
  period production.
\<close>

theorem report_end_exclusive_keeps_time_of_day:
  "report_end_exclusive (at_time (ymd 2024 1 7) 15 30 0) = Inr (at_time (ymd 2024 1 8) 15 30 0)
   \<and> build_end_exclusive (at_time (ymd 2024 1 7) 15 30 0) = Inr (at_time (ymd 2024 1 8) 0 0 0)
   \<and> map_sum id total_kg (generate_executive_report late_diario_world
        (Some (at_time (ymd 2024 1 1) 0 0 0)) (Some (at_time (ymd 2024 1 7) 15 30 0))) = Inr 50"
  by (simp add: report_defs build_end_exclusive_def value_defs date_defs
      late_diario_world_def quiet_world_def)

section \<open>Cumulative counters\<close>

text \<open>
  Claim C4: every computation over \<open>Sts_Dados\<close> takes the last record of the day and
  never sums the cumulative counters. \<open>get_operational_kpis\<close> does so;
  \<open>generate_executive_report\<close> sums \<open>D2\<close> and \<open>D1\<close> over all polls of the window. With
  two polls on one day reading 1 and then 2 cycles (1 and then 2 m3 of water), the report
  gives 3 cycles and 3000 litres where the last record gives 2 cycles and 2000 litres.
\<close>

theorem report_sums_cumulative_counters:
  "map_sum id (\<lambda>s. (total_cycles s, total_water_liters s))
     (generate_executive_report two_polls_world
        (Some (at_time (ymd 2024 1 10) 0 0 0)) (Some (at_time (ymd 2024 1 10) 0 0 0)))
     = Inr (3, 3000)
   \<and> ciclos_hoje (get_operational_kpis two_polls_world None None None) = 2
   \<and> litros_agua_hoje_raw (get_operational_kpis two_polls_world None None None) = 2000"
  by (simp add: report_defs kpi_defs value_defs date_defs two_polls_world_def quiet_world_def)

section \<open>Client display names\<close>

lemma digit_char_val: "d < 10 \<Longrightarrow> of_char (digit_char d) = (48::nat) + d"
proof -
  assume "d < 10"
  then have "d \<in> {0, 1, 2, 3, 4, 5, 6, 7, 8, 9}" by auto
  then show ?thesis unfolding digit_char_def by auto
qed

lemma dec_value_show_nat: "dec_value (show_nat n) = n"
proof (induction n rule: show_nat.induct)
  case (1 n)
  show ?case
  proof (cases "n < 10")
    case True
    then show ?thesis by (simp add: show_nat.simps [of n] dec_value_def digit_char_val)
  next
    case False
    with 1 have "dec_value (show_nat (n div 10)) = n div 10" by simp
    with False show ?thesis
      by (simp add: show_nat.simps [of n] dec_value_def digit_char_val)
  qed
qed

lemma set_prod_client_sql:
  "set (prod_client_sql w lo hi) =
     prod_client_group w (cargas_in w lo hi) ` set (map rc_C1 (cargas_in w lo hi))"
  by (simp add: prod_client_sql_def Let_def)

text \<open>
  Claim C9: a client identifier with no stored alias resolves to \<open>"Client "\<close> followed
  by the decimal identifier. The code writes the Portuguese prefix: for the unaliased
  client 42 the display name is \<open>"Cliente 42"\<close>, not \<open>"Client 42"\<close>.
\<close>

theorem client_42_counterexample:
  "client_display_of quiet_world (Some 42) = Some ''Cliente 42''
   \<and> client_display_of quiet_world (Some 42) \<noteq> Some ''Client 42''"
  by (simp add: build_defs quiet_world_def)

text \<open>
  Claim C9 as amended: for every client identifier with no stored alias, the display name
  is \<open>"Cliente "\<close> followed by the decimal identifier, in the expression of
  \<open>build_report_datasets\<close>, in every row of \<open>production_by_client\<close> for that client, and
  in \<open>get_client_performance_comparison\<close>. It is a function of the identifier alone.
\<close>

theorem unaliased_client_display:
  "client_alias w i = None \<Longrightarrow>
     client_display_of w (Some i) = Some (''Cliente '' @ cast_text i)
     \<and> client_name (Some i) = Some (''Cliente '' @ cast_text i)
     \<and> (\<forall>r \<in> set (prod_client_sql w lo hi).
           client_id r = Some i \<longrightarrow> client_display r = Some (''Cliente '' @ cast_text i))"
  by (auto simp add: set_prod_client_sql client_display_of_def alias_of_def client_name_def
      prod_client_group_def Let_def)

theorem unaliased_client_display_witness:
  "client_alias three_loads_world 7 = None
   \<and> client_display_of three_loads_world (Some 7) = Some ''Cliente 7''
   \<and> client_name (Some 7) = Some ''Cliente 7''
   \<and> map client_display (prod_client_sql three_loads_world
        (at_time (ymd 2024 1 1) 0 0 0) (at_time (ymd 2024 1 8) 0 0 0)) = [Some ''Cliente 7'']"
  using unaliased_client_display [of three_loads_world 7
      "at_time (ymd 2024 1 1) 0 0 0" "at_time (ymd 2024 1 8) 0 0 0"]
  by (simp add: build_defs value_defs date_defs three_loads_world_def quiet_world_def)

section \<open>Days without production in the period KPIs\<close>

lemma date_filter_periodo_rel_diario [simp]:
  "date_filter_periodo (w\<lparr>rel_diario := x\<rparr>) s e = date_filter_periodo w s e"
  by (simp add: fun_eq_iff date_filter_periodo_def split: option.splits)

lemma diario_periodo_drop:
  "\<not> sql_gt (rd_C4 r) 0 \<Longrightarrow>
   diario_periodo (w\<lparr>rel_diario := xs @ r # ys\<rparr>) s e
     = diario_periodo (w\<lparr>rel_diario := xs @ ys\<rparr>) s e"
  by (simp add: diario_periodo_def)

text \<open>
  Claim C10: the period KPIs of production, cycle count, water and derived ratios leave out
  every \<open>Rel_Diario\<close> row whose production \<open>C4\<close> is not strictly positive, so that a day
  without production is invisible in the period KPIs. The efficiency KPI is a period ratio
  too, and its query has no condition on \<open>C4\<close>: next to a day of 540 minutes of production
  and 60 of downtime, a day with \<open>C4 = 0\<close>, 60 minutes of production and 540 of downtime
  moves the efficiency from 90 to 50.
\<close>

theorem unproductive_day_counterexample:
  "\<not> sql_gt (rd_C4 unproductive_day_row) 0
   \<and> eficiencia_media (get_operational_kpis
         (quiet_world\<lparr>rel_diario := [busy_day_row]\<rparr>) None None None) = 90
   \<and> eficiencia_media (get_operational_kpis
         (quiet_world\<lparr>rel_diario := [busy_day_row, unproductive_day_row]\<rparr>) None None None) = 50"
  by (simp add: kpi_defs value_defs date_defs unproductive_day_row_def busy_day_row_def
      quiet_world_def)

text \<open>
  Claim C10 as amended: a \<open>Rel_Diario\<close> row whose production \<open>C4\<close> is not strictly
  positive (zero, negative or NULL) contributes nothing to the period kilograms, water
  volume and cycle count, nor to the ratios derived from them (weight per cycle, water per
  kilogram, chemicals per kilogram): removing such a row leaves the three period queries,
  the chemical query and these period entries of the KPI dictionary unchanged. The
  efficiency KPI is not among them: such a row is one of the rows of the efficiency query
  exactly when it lies in the period with \<open>"C1" > 0\<close> and \<open>"C0" >= 0\<close> (and passes the
  client filter).
\<close>

theorem nonpositive_production_rows_invisible:
  assumes "\<not> sql_gt (rd_C4 r) 0"
  shows "sts_periodo_query (w\<lparr>rel_diario := xs @ r # ys\<rparr>) s e
           = sts_periodo_query (w\<lparr>rel_diario := xs @ ys\<rparr>) s e
       \<and> production_periodo_query (w\<lparr>rel_diario := xs @ r # ys\<rparr>) s e c
           = production_periodo_query (w\<lparr>rel_diario := xs @ ys\<rparr>) s e c
       \<and> water_periodo_query (w\<lparr>rel_diario := xs @ r # ys\<rparr>) s e c
           = water_periodo_query (w\<lparr>rel_diario := xs @ ys\<rparr>) s e c
       \<and> chemical_periodo_query (w\<lparr>rel_diario := xs @ r # ys\<rparr>) s e
           = chemical_periodo_query (w\<lparr>rel_diario := xs @ ys\<rparr>) s e
       \<and> periodo_kpis (get_operational_kpis (w\<lparr>rel_diario := xs @ r # ys\<rparr>) s e c)
           = periodo_kpis (get_operational_kpis (w\<lparr>rel_diario := xs @ ys\<rparr>) s e c)
       \<and> efficiency_rows (w\<lparr>rel_diario := xs @ r # ys\<rparr>) s e c
           = efficiency_rows (w\<lparr>rel_diario := xs\<rparr>) s e c
             @ (if date_filter_periodo w s e (rd_Time_Stamp r) \<and> sql_gt (rd_C1 r) 0
                   \<and> sql_ge (rd_C0 r) 0 \<and> client_filter_sql c r then [r] else [])
             @ efficiency_rows (w\<lparr>rel_diario := ys\<rparr>) s e c"
proof -
  note d = diario_periodo_drop [OF assms]
  have q1: "sts_periodo_query (w\<lparr>rel_diario := xs @ r # ys\<rparr>) s e
           = sts_periodo_query (w\<lparr>rel_diario := xs @ ys\<rparr>) s e"
    by (simp add: sts_periodo_query_def d)
  have q2: "production_periodo_query (w\<lparr>rel_diario := xs @ r # ys\<rparr>) s e c
           = production_periodo_query (w\<lparr>rel_diario := xs @ ys\<rparr>) s e c"
    by (simp add: production_periodo_query_def d)
  have q3: "water_periodo_query (w\<lparr>rel_diario := xs @ r # ys\<rparr>) s e c
           = water_periodo_query (w\<lparr>rel_diario := xs @ ys\<rparr>) s e c"
    by (simp add: water_periodo_query_def d)
  have q4: "chemical_periodo_query (w\<lparr>rel_diario := xs @ r # ys\<rparr>) s e
           = chemical_periodo_query (w\<lparr>rel_diario := xs @ ys\<rparr>) s e"
    by (simp add: chemical_periodo_query_def d)
  have q5: "periodo_kpis (get_operational_kpis (w\<lparr>rel_diario := xs @ r # ys\<rparr>) s e c)
           = periodo_kpis (get_operational_kpis (w\<lparr>rel_diario := xs @ ys\<rparr>) s e c)"
    by (simp add: periodo_kpis_def get_operational_kpis_def execute_query_def q1 q4 Let_def)
  have q6: "efficiency_rows (w\<lparr>rel_diario := xs @ r # ys\<rparr>) s e c
           = efficiency_rows (w\<lparr>rel_diario := xs\<rparr>) s e c
             @ (if date_filter_periodo w s e (rd_Time_Stamp r) \<and> sql_gt (rd_C1 r) 0
                   \<and> sql_ge (rd_C0 r) 0 \<and> client_filter_sql c r then [r] else [])
             @ efficiency_rows (w\<lparr>rel_diario := ys\<rparr>) s e c"
    by (simp add: efficiency_rows_def)
  from q1 q2 q3 q4 q5 q6 show ?thesis by simp
qed

theorem nonpositive_production_rows_invisible_witness:
  "\<not> sql_gt (rd_C4 unproductive_day_row) 0
   \<and> periodo_kpis (get_operational_kpis
         (quiet_world\<lparr>rel_diario := [busy_day_row, unproductive_day_row]\<rparr>) None None None)
       = (100, 1, 2000, 20, 100, 0)
   \<and> periodo_kpis (get_operational_kpis
         (quiet_world\<lparr>rel_diario := [busy_day_row]\<rparr>) None None None)
       = (100, 1, 2000, 20, 100, 0)
   \<and> efficiency_rows (quiet_world\<lparr>rel_diario := [busy_day_row, unproductive_day_row]\<rparr>)
         None None None = [busy_day_row, unproductive_day_row]"
  using nonpositive_production_rows_invisible [where r = unproductive_day_row
      and w = quiet_world and xs = "[busy_day_row]" and ys = "[]"
      and s = None and e = None and c = None]
  by (simp add: periodo_kpis_def kpi_defs value_defs date_defs unproductive_day_row_def
      busy_day_row_def quiet_world_def)

section \<open>Efficiency\<close>

lemma round_half_even_of_int [simp]: "round_half_even (of_int k) = k"
  by (simp add: round_half_even_def)

lemma py_round_zero [simp]: "py_round 0 n = 0"
  by (simp add: py_round_def round_half_even_def)

lemma sql_round_decimal: "\<exists>k. sql_round x n = of_int k / 10 ^ n"
proof (cases "x < 0")
  case True
  then have "sql_round x n = of_int (- \<lfloor>\<bar>x\<bar> * 10 ^ n + 1 / 2\<rfloor>) / 10 ^ n"
    by (simp add: sql_round_def)
  then show ?thesis by blast
next
  case False
  then have "sql_round x n = of_int (if x = 0 then 0 else \<lfloor>\<bar>x\<bar> * 10 ^ n + 1 / 2\<rfloor>) / 10 ^ n"
    by (simp add: sql_round_def)
  then show ?thesis by blast
qed

lemma py_round_sql_round: "py_round (sql_round x n) n = sql_round x n"
proof -
  obtain k where k: "sql_round x n = of_int k / 10 ^ n"
    using sql_round_decimal by blast
  show ?thesis unfolding k py_round_def by simp
qed

lemma sum_list_map_pos:
  fixes g :: "'a \<Rightarrow> real"
  shows "rows \<noteq> [] \<Longrightarrow> \<forall>r \<in> set rows. 0 < g r \<Longrightarrow> 0 < sum_list (map g rows)"
proof (induction rows)
  case Nil
  then show ?case by simp
next
  case (Cons r rs)
  show ?case
  proof (cases "rs = []")
    case True
    with Cons.prems show ?thesis by simp
  next
    case False
    with Cons have "0 < sum_list (map g rs)" by simp
    moreover from Cons.prems have "0 < g r" by simp
    ultimately show ?thesis by simp
  qed
qed

lemma non_null_all_some:
  "\<forall>r \<in> set rows. f r \<noteq> None \<Longrightarrow>
   non_null (map f rows) = map (\<lambda>r. coalesce (f r) 0) rows"
  by (induction rows) (auto simp: non_null_def)

lemma efficiency_of_filtered:
  assumes "\<forall>r \<in> set rows. sql_gt (rd_C1 r) 0 \<and> sql_ge (rd_C0 r) 0"
  shows "efficiency_of rows = Inr (Some (sql_round (summed_efficiency (map minutes rows)) 1))"
proof -
  have some: "\<forall>r \<in> set rows. \<exists>a b. rd_C1 r = Some a \<and> rd_C0 r = Some b \<and> 0 < a \<and> 0 \<le> b"
  proof
    fix r assume "r \<in> set rows"
    with assms have "sql_gt (rd_C1 r) 0" "sql_ge (rd_C0 r) 0" by auto
    then show "\<exists>a b. rd_C1 r = Some a \<and> rd_C0 r = Some b \<and> 0 < a \<and> 0 \<le> b"
      by (cases "rd_C1 r"; cases "rd_C0 r") auto
  qed
  have n1: "non_null (map rd_C1 rows) = map (\<lambda>r. fst (minutes r)) rows"
    using some by (subst non_null_all_some) (auto simp: minutes_def)
  have n2: "non_null (map (\<lambda>r. sql_add (rd_C1 r) (rd_C0 r)) rows)
              = map (\<lambda>r. fst (minutes r) + snd (minutes r)) rows"
    using some by (subst non_null_all_some) (auto simp: minutes_def)
  show ?thesis
  proof (cases rows)
    case Nil
    then show ?thesis
      by (simp add: efficiency_of_def sql_sum_def non_null_def summed_efficiency_def sql_round_def)
  next
    case (Cons r rs)
    have "0 < sum_list (map (\<lambda>r. fst (minutes r) + snd (minutes r)) rows)"
    proof -
      have "\<forall>r \<in> set rows. 0 < fst (minutes r) + snd (minutes r)"
        using some by (fastforce simp: minutes_def)
      with Cons show ?thesis by (intro sum_list_map_pos) auto
    qed
    moreover from Cons have "rows \<noteq> []" by simp
    ultimately show ?thesis
      by (simp add: efficiency_of_def sql_sum_def n1 n2 summed_efficiency_def Let_def comp_def)
  qed
qed

lemma efficiency_rows_filtered:
  "\<forall>r \<in> set (efficiency_rows w s e c). sql_gt (rd_C1 r) 0 \<and> sql_ge (rd_C0 r) 0"
  by (simp add: efficiency_rows_def)

text \<open>
  \<open>get_dashboard_summary\<close> averages the per-record ratios: for the records (90, 10) and
  (10, 0) it reports 95, where the summed minutes give 100 / 110, that is 90.9.
\<close>

lemma dashboard_efficiency_is_mean_of_ratios:
  "avg_efficiency short_day_world = 95
   \<and> eficiencia_media (get_operational_kpis short_day_world None None None) = 90.9"
  by (simp add: kpi_defs value_defs date_defs short_day_world_def diario_minutes_def
      quiet_world_def avg_efficiency_def production_summary_def row_efficiency_def)

text \<open>
  Claim C2: the efficiency KPI is the summed production time over the summed production
  time plus downtime of all records in the window, so that the records (10, 0) and (0, 10)
  give 50.0. The efficiency query keeps only records with \<open>"C1" > 0 AND "C0" >= 0\<close>: the
  record (0, 10) is left out and the KPI is 100.0.
\<close>

theorem idle_day_efficiency_counterexample:
  "eficiencia_media (get_operational_kpis idle_day_world None None None) = 100
   \<and> summed_efficiency (map minutes (rel_diario idle_day_world)) = 50"
  by (simp add: kpi_defs value_defs date_defs idle_day_world_def diario_minutes_def
      quiet_world_def summed_efficiency_def minutes_def)

text \<open>
  Claim C2 as amended: for every window, the efficiency KPI of \<open>get_operational_kpis\<close> is
  the summed production time over the summed production time plus downtime, times 100 and
  rounded to one decimal, taken over the records of the window whose production time is
  strictly positive and whose downtime is not negative (0 when there is none, or when the
  query fails); it is never a mean of per-record ratios. The records (90, 10) and (10, 90)
  give 50.0; the records (10, 0) and (0, 10) give 100.0.
\<close>

theorem efficiency_over_summed_minutes:
  "eficiencia_media (get_operational_kpis w s e c) =
     (if answers w ''efficiency_query''
      then sql_round (summed_efficiency (map minutes (efficiency_rows w s e c))) 1 else 0)
   \<and> eficiencia_media (get_operational_kpis uneven_days_world None None None) = 50
   \<and> eficiencia_media (get_operational_kpis idle_day_world None None None) = 100"
proof -
  have general: "eficiencia_media (get_operational_kpis w s e c) =
     (if answers w ''efficiency_query''
      then sql_round (summed_efficiency (map minutes (efficiency_rows w s e c))) 1 else 0)"
    by (simp add: get_operational_kpis_def efficiency_query_def execute_query_def cell_def
        efficiency_of_filtered [OF efficiency_rows_filtered] py_round_sql_round Let_def)
  have uneven: "eficiencia_media (get_operational_kpis uneven_days_world None None None) = 50"
    by (simp add: kpi_defs value_defs date_defs uneven_days_world_def diario_minutes_def
        quiet_world_def)
  have idle: "eficiencia_media (get_operational_kpis idle_day_world None None None) = 100"
    by (simp add: kpi_defs value_defs date_defs idle_day_world_def diario_minutes_def
        quiet_world_def)
  from general uneven idle show ?thesis by simp
qed

section \<open>Today or the latest day\<close>


text \<open>
  The record that \<open>ORDER BY "Time_Stamp" DESC LIMIT 1\<close> returns for a day is a record of
  that day with no later record on it; there is none exactly when the day has no record.
\<close>

lemma latest_row_none: "(latest_row rs = None) = (rs = [])"
  by (induction rs) (auto split: option.splits if_splits)

lemma latest_row_greatest:
  "latest_row rs = Some m \<Longrightarrow>
   m \<in> set rs \<and> (\<forall>r \<in> set rs. dt_le (sd_Time_Stamp r) (sd_Time_Stamp m))"
proof (induction rs arbitrary: m)
  case Nil
  then show ?case by simp
next
  case (Cons r rs)
  show ?case
  proof (cases "latest_row rs")
    case None
    then have "rs = []" by (simp add: latest_row_none)
    with Cons.prems show ?thesis by (auto simp: dt_le_def)
  next
    case (Some m')
    with Cons.IH have ih: "m' \<in> set rs" "\<forall>r \<in> set rs. dt_le (sd_Time_Stamp r) (sd_Time_Stamp m')"
      by auto
    show ?thesis
    proof (cases "dt_less (sd_Time_Stamp r) (sd_Time_Stamp m')")
      case True
      with Some Cons.prems have "m = m'" by simp
      with ih True show ?thesis by (auto simp: dt_le_def dt_less_def)
    next
      case False
      with Some Cons.prems have "m = r" by simp
      moreover have "\<forall>x \<in> set rs. dt_le (sd_Time_Stamp x) (sd_Time_Stamp r)"
        using ih(2) False by (fastforce simp: dt_le_def dt_less_def)
      ultimately show ?thesis by (auto simp: dt_le_def)
    qed
  qed
qed

lemma last_of_day_is_last:
  "last_of_day w d = Some m \<Longrightarrow>
   m \<in> set (sts_dados w) \<and> ordinal (sd_Time_Stamp m) = d
   \<and> (\<forall>r \<in> set (sts_dados w). ordinal (sd_Time_Stamp r) = d \<longrightarrow>
          dt_le (sd_Time_Stamp r) (sd_Time_Stamp m))"
  unfolding last_of_day_def by (drule latest_row_greatest) auto

lemma last_of_day_none:
  "(last_of_day w d = None) = (d \<notin> set (sts_dates w))"
  by (force simp: last_of_day_def sts_dates_def filter_empty_conv latest_row_none)




section \<open>Ratios over a zero denominator\<close>

lemma rounded_ratio_cases:
  "(g \<Longrightarrow> b \<noteq> 0) \<Longrightarrow> rounded_ratio g a b n = Inr (if g then py_round (a / b) n else 0)"
  by (simp add: rounded_ratio_def py_div_def)

lemma case_ratio_cases:
  "case_ratio n d p =
     Inr (if sql_gt d 0 then map_option (\<lambda>x. sql_round (x / coalesce d 0) p) n else Some 0)"
  by (cases d; cases n) (simp_all add: case_ratio_def)

lemma per_kg_cases:
  "per_kg x kg =
     Inr (if coalesce kg 0 = 0 then Some 0 else map_option (\<lambda>v. v / coalesce kg 0) x)"
  by (cases kg; cases x) (simp_all add: per_kg_def py_div_def)

lemma report_ratios_zero:
  "\<exists>r. report_from w start_dt end_dt end_exclusive = Inr r
       \<and> (total_cycles r = 0 \<longrightarrow> peso_medio r = 0)
       \<and> (total_kg r = 0 \<longrightarrow> agua_por_kg r = 0 \<and> chemicals_per_kg r = 0)
       \<and> (period_days r = 0 \<longrightarrow> daily_avg r = 0)"
  unfolding report_from_def Let_def
  by (simp add: rounded_ratio_cases)

lemma merged_row_ratios_zero:
  "\<exists>row. merged_row ws cs d = Inr row
       \<and> (coalesce (wc_kg row) 0 = 0 \<longrightarrow>
            wc_agua_por_kg row = Some 0 \<and> wc_quimicos_por_kg row = Some 0)"
  by (simp add: merged_row_def per_kg_cases Let_def)

lemma sts_select_ratios_zero:
  "\<exists>out. sts_select r = Inr out
       \<and> (batchs out = 0 \<longrightarrow> peso_medio_out out = Some 0)
       \<and> (quilos_lavados out = 0 \<longrightarrow> litros_por_kg out = Some 0)"
  by (cases "D2 r"; cases "D3 r") (simp_all add: sts_select_def case_ratio_cases)

lemma sts_periodo_ratios_zero:
  "\<exists>out. sts_periodo_query w s e = Inr [out]
       \<and> (batchs out = 0 \<longrightarrow> peso_medio_out out = Some 0)
       \<and> (quilos_lavados out = 0 \<longrightarrow> litros_por_kg out = Some 0)"
  by (cases "sql_sum (map rd_C4 (diario_periodo w s e))")
     (simp_all add: sts_periodo_query_def case_ratio_cases Let_def)

lemma water_periodo_ratio_zero:
  "\<exists>l k. water_periodo_query w s e c = Inr [(l, k)]
       \<and> (coalesce (sql_sum (map rd_C4 (filter (client_filter_sql c) (diario_periodo w s e)))) 0 = 0
            \<longrightarrow> k = Some 0)"
  by (cases "sql_sum (map rd_C4 (filter (client_filter_sql c) (diario_periodo w s e)))")
     (simp_all add: water_periodo_query_def case_ratio_cases Let_def)

lemma chemical_hoje_ratio_zero:
  "\<exists>t k. chemical_hoje_query w = Inr [(t, k)]
       \<and> (coalesce (case last_of_day w (resumo_exec_date w) of None \<Rightarrow> None | Some r \<Rightarrow> D3 r) 0 = 0
            \<longrightarrow> k = Some 0)"
  by (cases "case last_of_day w (resumo_exec_date w) of None \<Rightarrow> None | Some r \<Rightarrow> D3 r")
     (simp_all add: chemical_hoje_query_def case_ratio_cases Let_def)

lemma chemical_periodo_ratio_zero:
  "\<exists>t k. chemical_periodo_query w s e = Inr [(t, k)]
       \<and> (coalesce (sql_sum (map rd_C4 (diario_periodo w s e))) 0 = 0 \<longrightarrow> k = Some 0)"
  by (cases "sql_sum (map rd_C4 (diario_periodo w s e))")
     (simp_all add: chemical_periodo_query_def case_ratio_cases Let_def)

lemma efficiency_of_zero:
  "\<exists>v. efficiency_of rows = Inr v
       \<and> (coalesce (sql_sum (map (\<lambda>r. sql_add (rd_C1 r) (rd_C0 r)) rows)) 0 = 0 \<longrightarrow> v = Some 0)"
  by (cases "sql_sum (map (\<lambda>r. sql_add (rd_C1 r) (rd_C0 r)) rows)";
      cases "sql_sum (map rd_C1 rows)")
     (simp_all add: efficiency_of_def Let_def)

lemma kpi_ratios_zero:
  "(diario_periodo w s e = [] \<longrightarrow> peso_medio_periodo (get_operational_kpis w s e c) = 0)
   \<and> (coalesce (sql_sum (map rd_C4 (diario_periodo w s e))) 0 = 0 \<longrightarrow>
         litros_por_kg_periodo (get_operational_kpis w s e c) = 0
         \<and> ml_quimicos_por_kg_periodo (get_operational_kpis w s e c) = 0)
   \<and> (coalesce (sql_sum (map (\<lambda>r. sql_add (rd_C1 r) (rd_C0 r)) (efficiency_rows w s e c))) 0 = 0
         \<longrightarrow> eficiencia_media (get_operational_kpis w s e c) = 0)"
proof -
  obtain out where out: "sts_periodo_query w s e = Inr [out]"
      "batchs out = 0 \<longrightarrow> peso_medio_out out = Some 0"
      "quilos_lavados out = 0 \<longrightarrow> litros_por_kg out = Some 0"
    using sts_periodo_ratios_zero by blast
  have b: "batchs out = real (length (diario_periodo w s e))"
    and q: "quilos_lavados out = coalesce (sql_sum (map rd_C4 (diario_periodo w s e))) 0"
    using out(1) by (auto simp: sts_periodo_query_def case_ratio_cases Let_def)
  obtain t k where ch: "chemical_periodo_query w s e = Inr [(t, k)]"
      "coalesce (sql_sum (map rd_C4 (diario_periodo w s e))) 0 = 0 \<longrightarrow> k = Some 0"
    using chemical_periodo_ratio_zero by blast
  obtain v where ef: "efficiency_of (efficiency_rows w s e c) = Inr v"
      "coalesce (sql_sum (map (\<lambda>r. sql_add (rd_C1 r) (rd_C0 r)) (efficiency_rows w s e c))) 0 = 0
         \<longrightarrow> v = Some 0"
    using efficiency_of_zero by blast
  show ?thesis
    using out(2,3) b q ch(2) ef(2)
    by (simp add: get_operational_kpis_def execute_query_def cell_def out(1) ch(1) ef(1)
        efficiency_query_def Let_def py_round_def round_half_even_def)
qed

text \<open>
  Claim C1: every derived ratio whose denominator aggregates to zero is 0, and computing
  it raises nothing, whatever the numerator. In \<open>generate_executive_report\<close>: the
  weight per cycle, the water and the chemicals per kilogram and the daily average. In
  \<open>build_report_datasets\<close>: the two per-kilogram columns of every merged day. In
  \<open>get_operational_kpis\<close>: the ratios of the last status record, of the period, of the
  chemicals and the efficiency, in the queries (which return a row, not an error) and in
  the KPI dictionary. Divisions are modelled as raising on a zero divisor, in Python and
  in SQL alike.
\<close>

theorem zero_denominator_gives_zero:
  "(\<exists>r. report_from w start_dt end_dt end_exclusive = Inr r
       \<and> (total_cycles r = 0 \<longrightarrow> peso_medio r = 0)
       \<and> (total_kg r = 0 \<longrightarrow> agua_por_kg r = 0 \<and> chemicals_per_kg r = 0)
       \<and> (period_days r = 0 \<longrightarrow> daily_avg r = 0))
   \<and> (\<exists>row. merged_row ws cs d = Inr row
       \<and> (coalesce (wc_kg row) 0 = 0 \<longrightarrow>
            wc_agua_por_kg row = Some 0 \<and> wc_quimicos_por_kg row = Some 0))
   \<and> (\<exists>out. sts_select p = Inr out
       \<and> (batchs out = 0 \<longrightarrow> peso_medio_out out = Some 0)
       \<and> (quilos_lavados out = 0 \<longrightarrow> litros_por_kg out = Some 0))
   \<and> (\<exists>out. sts_periodo_query w s e = Inr [out]
       \<and> (batchs out = 0 \<longrightarrow> peso_medio_out out = Some 0)
       \<and> (quilos_lavados out = 0 \<longrightarrow> litros_por_kg out = Some 0))
   \<and> (\<exists>l k. water_periodo_query w s e c = Inr [(l, k)]
       \<and> (coalesce (sql_sum (map rd_C4 (filter (client_filter_sql c) (diario_periodo w s e)))) 0 = 0
            \<longrightarrow> k = Some 0))
   \<and> (\<exists>t k. chemical_hoje_query w = Inr [(t, k)]
       \<and> (coalesce (case last_of_day w (resumo_exec_date w) of None \<Rightarrow> None | Some r \<Rightarrow> D3 r) 0 = 0
            \<longrightarrow> k = Some 0))
   \<and> (\<exists>t k. chemical_periodo_query w s e = Inr [(t, k)]
       \<and> (coalesce (sql_sum (map rd_C4 (diario_periodo w s e))) 0 = 0 \<longrightarrow> k = Some 0))
   \<and> (\<exists>v. efficiency_of rows = Inr v
       \<and> (coalesce (sql_sum (map (\<lambda>r. sql_add (rd_C1 r) (rd_C0 r)) rows)) 0 = 0 \<longrightarrow> v = Some 0))
   \<and> (diario_periodo w s e = [] \<longrightarrow> peso_medio_periodo (get_operational_kpis w s e c) = 0)
   \<and> (coalesce (sql_sum (map rd_C4 (diario_periodo w s e))) 0 = 0 \<longrightarrow>
         litros_por_kg_periodo (get_operational_kpis w s e c) = 0
         \<and> ml_quimicos_por_kg_periodo (get_operational_kpis w s e c) = 0)
   \<and> (coalesce (sql_sum (map (\<lambda>r. sql_add (rd_C1 r) (rd_C0 r)) (efficiency_rows w s e c))) 0 = 0
         \<longrightarrow> eficiencia_media (get_operational_kpis w s e c) = 0)"
  using report_ratios_zero [of w start_dt end_dt end_exclusive] merged_row_ratios_zero [of ws cs d] sts_select_ratios_zero [of p]
    sts_periodo_ratios_zero [of w s e] water_periodo_ratio_zero [of w s e c] chemical_hoje_ratio_zero [of w] chemical_periodo_ratio_zero [of w s e]
    efficiency_of_zero [of rows] kpi_ratios_zero [of w s e c]
  by blast

theorem zero_denominator_gives_zero_witness:
  "map_sum id (\<lambda>r. (total_kg r, total_water_liters r, agua_por_kg r, total_chemicals r,
                    chemicals_per_kg r, total_cycles r, peso_medio r))
     (report_from dry_world (at_time (ymd 2024 1 4) 0 0 0) (at_time (ymd 2024 1 10) 0 0 0)
        (at_time (ymd 2024 1 11) 0 0 0)) = Inr (0, 5000, 0, 5, 0, 0, 0)
   \<and> map_sum id (\<lambda>r. (wc_kg r, wc_agua_litros r, wc_agua_por_kg r, wc_quimicos_por_kg r))
       (merged_row [\<lparr>wd_dia = 1, wd_kg = 0, wd_ciclos = 1, wd_agua_litros = 5000\<rparr>]
          [\<lparr>cd_dia = 1, cd_quimicos = 5\<rparr>] 1) = Inr (Some 0, Some 5000, Some 0, Some 0)
   \<and> map_sum id (\<lambda>r. (litros_agua r, quilos_lavados r, litros_por_kg r))
       (sts_select (poll (at_time (ymd 2024 1 10) 9 0 0) 5 0 0)) = Inr (5000, 0, Some 0)
   \<and> sql_sum (map rd_C2 (rel_diario dry_world)) = Some 5
   \<and> diario_periodo dry_world None None = []
   \<and> periodo_kpis (get_operational_kpis dry_world None None None) = (0, 0, 0, 0, 0, 0)
   \<and> chemical_periodo_query dry_world None None = Inr [(9, Some 0)]
   \<and> chemical_hoje_query dry_world = Inr [(9, Some 0)]
   \<and> efficiency_of [diario_minutes 1 0 0] = Inr (Some 0)"
  using zero_denominator_gives_zero [where w = dry_world
      and start_dt = "at_time (ymd 2024 1 4) 0 0 0" and end_dt = "at_time (ymd 2024 1 10) 0 0 0"
      and end_exclusive = "at_time (ymd 2024 1 11) 0 0 0"
      and ws = "[\<lparr>wd_dia = 1, wd_kg = 0, wd_ciclos = 1, wd_agua_litros = 5000\<rparr>]"
      and cs = "[\<lparr>cd_dia = 1, cd_quimicos = 5\<rparr>]" and d = 1
      and p = "poll (at_time (ymd 2024 1 10) 9 0 0) 5 0 0"
      and s = None and e = None and c = None and rows = "[diario_minutes 1 0 0]"]
  by (simp add: report_defs kpi_defs value_defs date_defs merged_row_def per_kg_def
      dry_world_def chem_row_def poll_def zero_day_row_def quiet_world_def periodo_kpis_def
      diario_minutes_def)

section \<open>Daily production and the summary\<close>








lemma build_try_parts:
  assumes "build_try w s e = Inr r"
  shows "generate_executive_report w (Some s) (Some e) = Inr (summary_of r)
     \<and> daily_production r = execute_query w ''daily_prod_sql''
          (Inr (daily_prod_sql w s \<lparr>ordinal = ordinal e + 1, usec = 0\<rparr>))
     \<and> production_by_client r = execute_query w ''prod_client_sql''
          (Inr (prod_client_sql w s \<lparr>ordinal = ordinal e + 1, usec = 0\<rparr>))"
proof -
  from assms have lt: "ordinal e < max_ordinal"
    by (auto simp: build_try_def build_end_exclusive_def plus_days_def split: if_splits)
  from assms show ?thesis
    by (auto simp: build_try_def build_end_exclusive_floor [OF lt] Let_def split: sum.splits)
qed


lemma three_loads_build:
  "build_report_datasets three_loads_world three_loads_world jan_1 jan_7 = Inr three_loads_report"
  by (simp add: build_defs report_defs value_defs date_defs three_loads_world_def
      quiet_world_def jan_1_def jan_7_def three_loads_report_def)




section \<open>Failures while building the report\<close>

lemma collect_all_Inr:
  "\<forall>x \<in> set xs. \<exists>v. f x = Inr v \<Longrightarrow> \<exists>vs. collect (map f xs) = Inr vs"
proof (induction xs)
  case Nil
  then show ?case by simp
next
  case (Cons x xs)
  then obtain v vs where "f x = Inr v" "collect (map f xs) = Inr vs" by auto
  then show ?case by simp
qed

lemma water_chem_merge_frames:
  "\<exists>rows. water_chem_merge (Frame ws) (Frame cs) = Inr rows"
  unfolding water_chem_merge_def
  using merged_row_ratios_zero [of ws cs] by (auto intro!: collect_all_Inr)

lemma water_chem_merge_no_columns:
  "water_chem_merge NoColumns cf = Inl KeyError" "water_chem_merge wf' NoColumns = Inl KeyError"
  by (simp_all add: water_chem_merge_def split: frame.splits)

lemma generate_executive_report_returns:
  "ordinal e < max_ordinal \<Longrightarrow> \<exists>sm. generate_executive_report w (Some s) (Some e) = Inr sm"
  by (simp add: generate_executive_report_def report_end_exclusive_shift split: sum.splits)

lemma build_try_returns:
  assumes "ordinal e < max_ordinal"
      and "answers w ''water_daily_sql''" and "answers w ''chemicals_daily_sql''"
  shows "\<exists>r. build_try w s e = Inr r"
proof -
  obtain sm where sm: "generate_executive_report w (Some s) (Some e) = Inr sm"
    using generate_executive_report_returns [OF assms(1)] by blast
  obtain rows where "water_chem_merge
      (Frame (water_daily_sql w s \<lparr>ordinal = ordinal e + 1, usec = 0\<rparr>))
      (Frame (chemicals_daily_sql w s \<lparr>ordinal = ordinal e + 1, usec = 0\<rparr>)) = Inr rows"
    using water_chem_merge_frames by blast
  with sm assms show ?thesis
    by (simp add: build_try_def build_end_exclusive_floor execute_query_def Let_def)
qed

lemma build_try_fails_without_columns:
  assumes "\<not> answers w ''water_daily_sql'' \<or> \<not> answers w ''chemicals_daily_sql''"
  shows "\<exists>err. build_try w s e = Inl err"
  using assms
  by (auto simp: build_try_def execute_query_def Let_def water_chem_merge_no_columns
      split: sum.splits)

lemma builder_degrades:
  assumes "ordinal e < max_ordinal"
  shows "\<exists>r. build_report_datasets w w' s e = Inr r
     \<and> (generate_executive_report w (Some s) (Some e) = Inr (summary_of r)
          \<or> generate_executive_report w' (Some s) (Some e) = Inr (summary_of r))
     \<and> (\<not> answers w ''prod_client_sql'' \<longrightarrow> production_by_client r = NoColumns)
     \<and> (\<not> answers w ''daily_prod_sql'' \<longrightarrow> daily_production r = NoColumns)
     \<and> (\<not> answers w ''water_daily_sql'' \<or> \<not> answers w ''chemicals_daily_sql''
          \<longrightarrow> water_chemicals_daily r = NoColumns)
     \<and> (\<not> answers w ''alarms_daily_sql'' \<longrightarrow> alarms_daily r = NoColumns)"
proof (cases "build_try w s e")
  case (Inl err)
  obtain sm where "generate_executive_report w' (Some s) (Some e) = Inr sm"
    using generate_executive_report_returns [OF assms] by blast
  with Inl show ?thesis by (simp add: build_report_datasets_def)
next
  case (Inr r)
  then have both: "answers w ''water_daily_sql''" "answers w ''chemicals_daily_sql''"
    using build_try_fails_without_columns [of w s e] by auto
  from Inr have "generate_executive_report w (Some s) (Some e) = Inr (summary_of r)"
    using build_try_parts by blast
  moreover from Inr assms have
    "production_by_client r = execute_query w ''prod_client_sql''
          (Inr (prod_client_sql w s \<lparr>ordinal = ordinal e + 1, usec = 0\<rparr>))"
    "daily_production r = execute_query w ''daily_prod_sql''
          (Inr (daily_prod_sql w s \<lparr>ordinal = ordinal e + 1, usec = 0\<rparr>))"
    "alarms_daily r = execute_query w ''alarms_daily_sql''
          (Inr (alarms_daily_sql w s \<lparr>ordinal = ordinal e + 1, usec = 0\<rparr>))"
    by (auto simp: build_try_def build_end_exclusive_floor Let_def split: sum.splits)
  ultimately show ?thesis
    using Inr both by (simp add: build_report_datasets_def execute_query_def)
qed

lemma builder_offline:
  "build_report_datasets offline_world offline_world jan_1 jan_7 =
     Inr \<lparr>summary_of = \<lparr>period_days = 7, total_kg = 0, total_cycles = 0, daily_avg = 0,
             peso_medio = 0, total_water_liters = 0, agua_por_kg = 0, total_chemicals = 0,
             chemicals_per_kg = 0\<rparr>,
          production_by_client = NoColumns, daily_production = NoColumns,
          water_chemicals_daily = NoColumns, alarms_daily = NoColumns\<rparr>"
  by (simp add: build_defs report_defs value_defs date_defs offline_world_def
      full_week_world_def three_loads_world_def quiet_world_def jan_1_def jan_7_def)

text \<open>
  Claim C6: for every window the builder returns a result with the summary, whatever
  fails. For every end date before 9999-12-31 it does (\<open>builder_degrades\<close>: a failed
  query leaves its table empty, and a failed water or chemicals query leaves all four
  empty). On the last representable day the builder raises: adding one day overflows
  inside the \<open>try\<close> block, the handler calls \<open>generate_executive_report\<close>, and there the
  same addition stands before the \<open>try\<close> block.
\<close>

theorem builder_raises_on_last_day:
  "build_report_datasets w w' start_dt (at_time (ymd 9999 12 31) 0 0 0) = Inl OverflowError"
  by (simp add: build_report_datasets_def build_try_def build_end_exclusive_def
      generate_executive_report_def report_end_exclusive_def date_defs)

section \<open>Three loads of one client\<close>

lemma round_half_even_close: "\<bar>of_int (round_half_even y) - y\<bar> \<le> 1 / 2"
proof -
  define f where "f = \<lfloor>y\<rfloor>"
  have bounds: "of_int f \<le> y" "y < of_int f + 1"
    unfolding f_def by linarith+
  have "round_half_even y =
     (if y - of_int f < 1 / 2 then f else if 1 / 2 < y - of_int f then f + 1
      else if even f then f else f + 1)"
    by (simp add: round_half_even_def Let_def f_def)
  with bounds show ?thesis
    by (auto simp: abs_if split: if_splits)
qed

lemma py_round_close: "\<bar>py_round x n - x\<bar> \<le> 1 / (2 * 10 ^ n)"
proof -
  have "py_round x n - x = (of_int (round_half_even (x * 10 ^ n)) - x * 10 ^ n) / 10 ^ n"
    by (simp add: py_round_def field_simps)
  then have "\<bar>py_round x n - x\<bar>
               = \<bar>of_int (round_half_even (x * 10 ^ n)) - x * 10 ^ n\<bar> / 10 ^ n"
    by (simp add: abs_divide)
  also have "\<dots> \<le> (1 / 2) / 10 ^ n"
    by (intro divide_right_mono round_half_even_close) simp
  finally show ?thesis by simp
qed

lemma report_from_agua:
  "\<exists>r. report_from w s e hi = Inr r
     \<and> total_kg r = window_kg w s hi
     \<and> (total_kg r \<le> 0 \<longrightarrow> agua_por_kg r = 0)
     \<and> (0 < total_kg r \<longrightarrow> \<bar>agua_por_kg r - total_water_liters r / total_kg r\<bar> \<le> 1 / 200)
     \<and> (total_water_liters r = 130 * 1000 \<and> total_kg r = 300 \<longrightarrow> agua_por_kg r = 433.33)"
proof -
  have exact: "py_round (130 * 1000 / 300) 2 = 433.33"
    by (simp add: py_round_def round_half_even_def)
  have close: "\<And>x. \<bar>py_round x 2 - x\<bar> \<le> 1 / 200"
    using py_round_close [of _ 2] by simp
  show ?thesis
    unfolding report_from_def Let_def window_kg_def
    using exact close
    by (auto simp add: rounded_ratio_def py_div_def execute_query_def prod_query_def Let_def)
qed

lemma jan_7_bounds:
  "ordinal jan_7 < max_ordinal"
  "\<lparr>ordinal = ordinal jan_7 + 1, usec = 0\<rparr> = jan_8"
  "\<lparr>ordinal = ordinal jan_7 + 1, usec = usec jan_7\<rparr> = jan_8"
  "\<lparr>ordinal = Suc (ordinal jan_7), usec = 0\<rparr> = jan_8"
  "\<lparr>ordinal = Suc (ordinal jan_7), usec = usec jan_7\<rparr> = jan_8"
  by (simp_all add: jan_7_def jan_8_def date_defs)

text \<open>
  Claim C8: for the window 2024-01-01 to 2024-01-07 and three loads of 100 kg / 50,
  200 kg / 80 and 0 kg / 0 of the unaliased client 7, \<open>production_by_client\<close> has the one
  row ("Client 7", 300 kg, 3 loads, average 100) and the water per kilogram is 433.33.
  The code gives the row ("Cliente 7", 300 kg, 3 loads, average 150): the prefix is
  Portuguese and the average skips the load of 0 kg (\<open>AVG(NULLIF("C2", 0))\<close>). The water
  per kilogram of the summary does not read the loads: with no status poll and no
  consolidated day it is 0.
\<close>

theorem three_loads_counterexample:
  "build_report_datasets three_loads_world three_loads_world jan_1 jan_7 = Inr three_loads_report
   \<and> production_by_client three_loads_report =
       Frame [\<lparr>client_id = Some 7, client_display = Some ''Cliente 7'', total_cargas = 3,
               pc_total_kg = 300, peso_medio_kg = 150\<rparr>]
   \<and> production_by_client three_loads_report \<noteq>
       Frame [\<lparr>client_id = Some 7, client_display = Some ''Client 7'', total_cargas = 3,
               pc_total_kg = 300, peso_medio_kg = 100\<rparr>]
   \<and> agua_por_kg (summary_of three_loads_report) = 0"
  by (simp add: three_loads_build three_loads_report_def)

text \<open>
  Claim C8 as amended: for that window and those three loads, whatever their times in the
  window, when the queries for the production by client, the daily water and the daily
  chemicals are answered, \<open>production_by_client\<close> has exactly one row, with display
  "Cliente 7", 300 kg, 3 loads and average weight 150. The water per kilogram of the
  summary does not read the loads: it is the period water of the summary, in litres, over
  its period production, which is the total of the consolidated days of the window
  (\<open>Rel_Diario\<close>, 0 when that query fails), to two decimals, and 0 without kilograms; it is
  433.33 when these are 130 * 1000 litres and 300 kg.
\<close>

theorem three_loads_of_client_7:
  assumes "cargas_in w jan_1 jan_8 = [load t1 7 100 50, load t2 7 200 80, load t3 7 0 0]"
    and "client_alias w 7 = None"
    and "answers w ''prod_client_sql''"
    and "answers w ''water_daily_sql''" and "answers w ''chemicals_daily_sql''"
  shows "\<exists>r. build_report_datasets w w' jan_1 jan_7 = Inr r
     \<and> production_by_client r =
          Frame [\<lparr>client_id = Some 7, client_display = Some ''Cliente 7'', total_cargas = 3,
                  pc_total_kg = 300, peso_medio_kg = 150\<rparr>]
     \<and> total_kg (summary_of r) = window_kg w jan_1 jan_8
     \<and> (total_kg (summary_of r) \<le> 0 \<longrightarrow> agua_por_kg (summary_of r) = 0)
     \<and> (0 < total_kg (summary_of r) \<longrightarrow>
          \<bar>agua_por_kg (summary_of r)
             - total_water_liters (summary_of r) / total_kg (summary_of r)\<bar> \<le> 1 / 200)
     \<and> (total_water_liters (summary_of r) = 130 * 1000 \<and> total_kg (summary_of r) = 300 \<longrightarrow>
          agua_por_kg (summary_of r) = 433.33)"
proof -
  obtain r where r: "build_try w jan_1 jan_7 = Inr r"
    using build_try_returns [OF jan_7_bounds(1) assms(4,5)] by blast
  note parts = build_try_parts [OF r]
  have "prod_client_sql w jan_1 jan_8 =
          [\<lparr>client_id = Some 7, client_display = Some ''Cliente 7'', total_cargas = 3,
            pc_total_kg = 300, peso_medio_kg = 150\<rparr>]"
    using assms(1,2)
    by (simp add: prod_client_sql_def prod_client_group_def load_def client_display_of_def
        alias_of_def cast_text_def show_nat.simps digit_char_def value_defs)
  with parts assms(3) have pc: "production_by_client r =
          Frame [\<lparr>client_id = Some 7, client_display = Some ''Cliente 7'', total_cargas = 3,
                  pc_total_kg = 300, peso_medio_kg = 150\<rparr>]"
    by (simp add: execute_query_def jan_7_bounds)
  obtain sm where sm: "report_from w jan_1 jan_7 jan_8 = Inr sm"
     "total_kg sm = window_kg w jan_1 jan_8"
     "total_kg sm \<le> 0 \<longrightarrow> agua_por_kg sm = 0"
     "0 < total_kg sm \<longrightarrow> \<bar>agua_por_kg sm - total_water_liters sm / total_kg sm\<bar> \<le> 1 / 200"
     "total_water_liters sm = 130 * 1000 \<and> total_kg sm = 300 \<longrightarrow> agua_por_kg sm = 433.33"
    using report_from_agua by blast
  from parts sm(1) have "summary_of r = sm"
    by (simp add: generate_executive_report_def report_end_exclusive_shift jan_7_bounds)
  with sm(2-5) pc r show ?thesis
    by (simp add: build_report_datasets_def)
qed

theorem three_loads_of_client_7_witness:
  "cargas_in full_week_world jan_1 jan_8 =
     [load (at_time (ymd 2024 1 2) 8 0 0) 7 100 50, load (at_time (ymd 2024 1 3) 9 0 0) 7 200 80,
      load (at_time (ymd 2024 1 5) 10 0 0) 7 0 0]
   \<and> client_alias full_week_world 7 = None
   \<and> answers full_week_world ''prod_client_sql''
   \<and> answers full_week_world ''water_daily_sql''
   \<and> answers full_week_world ''chemicals_daily_sql''
   \<and> window_kg full_week_world jan_1 jan_8 = 300
   \<and> map_sum id (\<lambda>r. (production_by_client r, total_kg (summary_of r),
                       total_water_liters (summary_of r), agua_por_kg (summary_of r)))
        (build_report_datasets full_week_world full_week_world jan_1 jan_7) =
      Inr (Frame [\<lparr>client_id = Some 7, client_display = Some ''Cliente 7'', total_cargas = 3,
                  pc_total_kg = 300, peso_medio_kg = 150\<rparr>], 300, 130 * 1000, 433.33)"
proof -
  have a: "cargas_in full_week_world jan_1 jan_8 =
     [load (at_time (ymd 2024 1 2) 8 0 0) 7 100 50, load (at_time (ymd 2024 1 3) 9 0 0) 7 200 80,
      load (at_time (ymd 2024 1 5) 10 0 0) 7 0 0]"
    by (simp add: cargas_in_def full_week_world_def three_loads_world_def quiet_world_def
        load_def jan_1_def jan_8_def date_defs)
  have b: "client_alias full_week_world 7 = None" "answers full_week_world ''prod_client_sql''"
    "answers full_week_world ''water_daily_sql''" "answers full_week_world ''chemicals_daily_sql''"
    by (simp_all add: full_week_world_def three_loads_world_def quiet_world_def)
  have c: "window_kg full_week_world jan_1 jan_8 = 300"
    by (simp add: window_kg_def full_week_world_def three_loads_world_def quiet_world_def
        diario_minutes_def jan_1_def jan_8_def date_defs value_defs)
  have d: "map_sum id (\<lambda>r. total_water_liters (summary_of r))
        (build_report_datasets full_week_world full_week_world jan_1 jan_7) = Inr (130 * 1000)"
    by (simp add: build_defs report_defs value_defs date_defs full_week_world_def
        three_loads_world_def quiet_world_def diario_minutes_def poll_def jan_1_def jan_7_def)
  from three_loads_of_client_7 [OF a b, of full_week_world] a b c d show ?thesis
    by auto
qed

end
